theory Spec2Isabelle
  imports Complex_Main "HOL-Library.Multiset"
begin

section \<open>Python values and failures\<close>

text \<open>
  The dataset class \<^verbatim>\<open>KITTIFull\<close> of \<^verbatim>\<open>datasets/kitti_full.py\<close> is embedded as
  pure functions. Every exception the Python can raise is a value of \<open>error\<close>; a
  function that may raise returns \<open>error + 'a\<close> with \<open>Inl\<close> for the exception.
  Python integers are \<open>int\<close>. Floating-point numbers are modelled by \<open>real\<close>: the
  statements below only depend on which expressions are computed, not on rounding.
\<close>

datatype error =
    AssertionError
  | IndexError
  | KeyError
  | ValueError
  | TypeError
  | FileNotFoundError
  | OSError
  | LinAlgError

text \<open>A configuration value that is an integer or a string (\<^verbatim>\<open>preload_interval\<close>).\<close>

datatype pyval = PyInt int | PyStr string

text \<open>\<^verbatim>\<open>xs[i]\<close> on a Python list: a negative index counts from the end, an index
  outside the list raises \<^verbatim>\<open>IndexError\<close>.\<close>

definition py_getitem :: "'a list \<Rightarrow> int \<Rightarrow> error + 'a" where
  "py_getitem xs i =
     (if 0 \<le> i \<and> i < int (length xs) then Inr (xs ! nat i)
      else if i < 0 \<and> - int (length xs) \<le> i then Inr (xs ! nat (int (length xs) + i))
      else Inl IndexError)"

text \<open>\<^verbatim>\<open>xs[i::k]\<close> for \<open>i \<ge> 0\<close> and \<open>k \<ge> 1\<close>: the elements at positions
  \<open>i, i + k, i + 2k, \<dots>\<close>. The source only evaluates such a slice inside
  \<^verbatim>\<open>range(min(len(xs), k))\<close>, which is empty unless \<open>k \<ge> 1\<close>.\<close>

fun every_kth :: "nat \<Rightarrow> 'a list \<Rightarrow> 'a list" where
  "every_kth k [] = []"
| "every_kth k (x # xs) = x # every_kth k (drop (k - 1) xs)"

definition py_slice_step :: "'a list \<Rightarrow> nat \<Rightarrow> nat \<Rightarrow> 'a list" where
  "py_slice_step xs i k = every_kth k (drop i xs)"

section \<open>Annotation records\<close>

text \<open>One row of a label file, with the columns named in \<^verbatim>\<open>pd.read_csv\<close>. The
  columns \<^verbatim>\<open>type\<close>, \<^verbatim>\<open>length\<close>, \<^verbatim>\<open>x\<close>, \<^verbatim>\<open>y\<close>, \<^verbatim>\<open>z\<close> are renamed
  \<open>obj_type\<close>, \<open>box_length\<close>, \<open>pos_x\<close>, \<open>pos_y\<close>, \<open>pos_z\<close>.\<close>

record label_row =
  frame :: int
  track_id :: int
  obj_type :: string
  truncated :: int
  occluded :: int
  alpha :: real
  bbox_left :: real
  bbox_top :: real
  bbox_right :: real
  bbox_bottom :: real
  height :: real
  width :: real
  box_length :: real
  pos_x :: real
  pos_y :: real
  pos_z :: real
  rotation_y :: real

text \<open>A row after \<^verbatim>\<open>data.insert(loc=0, column='scene', value=scene_id)\<close>.\<close>

record frame_anno = label_row +
  scene :: int

definition insert_scene :: "int \<Rightarrow> label_row \<Rightarrow> frame_anno" where
  "insert_scene scene_id r = label_row.extend r (frame_anno.fields scene_id)"

section \<open>Building the tracklet annotations\<close>

text \<open>The category filter of \<^verbatim>\<open>_build_tracklet_annotations\<close>.\<close>

definition filter_category :: "string \<Rightarrow> label_row list \<Rightarrow> label_row list" where
  "filter_category category_name data =
     (if category_name = ''All''
      then filter (\<lambda>r. obj_type r = ''Car'' \<or> obj_type r = ''Van'' \<or>
                         obj_type r = ''Pedestrian'' \<or> obj_type r = ''Cyclist'') data
      else filter (\<lambda>r. obj_type r = category_name) data)"

text \<open>The loop
  \<^verbatim>\<open>for i in range(min(len(tracklet_anno), interval)): append(tracklet_anno[i::interval])\<close>
  that occurs three times in the source, as the list of tracklets it appends.\<close>

definition subsample_interval :: "int \<Rightarrow> 'a list \<Rightarrow> 'a list list" where
  "subsample_interval interval tracklet_anno =
     map (\<lambda>i. py_slice_step tracklet_anno i (nat interval))
         [0 ..< nat (min (int (length tracklet_anno)) interval)]"

text \<open>The body of the loop over track ids, after grouping and sorting: the tracklets
  one physical track contributes. A \<^verbatim>\<open>preload_interval\<close> that is a string other
  than \<^verbatim>\<open>'all'\<close> makes \<^verbatim>\<open>min(len(..), preload_interval)\<close> raise \<^verbatim>\<open>TypeError\<close>.\<close>

definition subsample_track :: "pyval \<Rightarrow> string \<Rightarrow> 'a list \<Rightarrow> error + 'a list list" where
  "subsample_track preload_interval split_type tracklet_anno =
     (if preload_interval = PyStr ''all'' then
        (if split_type = ''train''
         then Inr (concat (map (\<lambda>interval. subsample_interval interval tracklet_anno)
                               [1, 2, 3, 5, 10]))
         else Inr (subsample_interval 5 tracklet_anno))
      else (case preload_interval of
              PyInt k \<Rightarrow> Inr (subsample_interval k tracklet_anno)
            | PyStr s \<Rightarrow> Inl TypeError))"

text \<open>The loop over the sorted track ids of one scene. \<open>sort_values\<close> is pandas'
  \<^verbatim>\<open>DataFrame.sort_values(by=['frame'])\<close>, a parameter: pandas does not fix the order
  of rows with equal keys.\<close>

fun track_loop ::
  "(frame_anno list \<Rightarrow> frame_anno list) \<Rightarrow> pyval \<Rightarrow> string \<Rightarrow> frame_anno list \<Rightarrow> int list \<Rightarrow>
   frame_anno list list \<Rightarrow> error + frame_anno list list" where
  "track_loop sort_values preload_interval split_type data [] tracklet_annotations =
     Inr tracklet_annotations"
| "track_loop sort_values preload_interval split_type data (tid # track_ids) tracklet_annotations =
     (case subsample_track preload_interval split_type
             (sort_values (filter (\<lambda>a. track_id a = tid) data)) of
        Inl e \<Rightarrow> Inl e
      | Inr ts \<Rightarrow> track_loop sort_values preload_interval split_type data track_ids
                   (tracklet_annotations @ ts))"

text \<open>The loop over the scene ids. \<open>label_files\<close> is the parsed content of
  \<^verbatim>\<open>label_02/%04d.txt\<close> for each scene id, or the exception \<^verbatim>\<open>pd.read_csv\<close>
  raises.\<close>

fun scene_loop ::
  "(frame_anno list \<Rightarrow> frame_anno list) \<Rightarrow> (int \<Rightarrow> error + label_row list) \<Rightarrow> string \<Rightarrow> pyval \<Rightarrow>
   string \<Rightarrow> int list \<Rightarrow> frame_anno list list \<Rightarrow> error + frame_anno list list" where
  "scene_loop sort_values label_files category_name preload_interval split_type []
     tracklet_annotations = Inr tracklet_annotations"
| "scene_loop sort_values label_files category_name preload_interval split_type
     (scene_id # scene_ids) tracklet_annotations =
     (case label_files scene_id of
        Inl e \<Rightarrow> Inl e
      | Inr rows \<Rightarrow>
          (let data = map (insert_scene scene_id) (filter_category category_name rows);
               track_ids = sort (remdups (map track_id data))
           in case track_loop sort_values preload_interval split_type data track_ids
                     tracklet_annotations of
                Inl e \<Rightarrow> Inl e
              | Inr acc \<Rightarrow> scene_loop sort_values label_files category_name preload_interval
                             split_type scene_ids acc))"

definition build_tracklet_annotations ::
  "(frame_anno list \<Rightarrow> frame_anno list) \<Rightarrow> (int \<Rightarrow> error + label_row list) \<Rightarrow> string \<Rightarrow> pyval \<Rightarrow>
   string \<Rightarrow> int list \<Rightarrow> error + frame_anno list list" where
  "build_tracklet_annotations sort_values label_files category_name preload_interval
     split_type scene_ids =
     scene_loop sort_values label_files category_name preload_interval split_type scene_ids []"

section \<open>Index boundaries\<close>

text \<open>The loop of \<^verbatim>\<open>__init__\<close> over \<^verbatim>\<open>tracklet_num_frames\<close>, with its assertion.\<close>

fun boundary_loop ::
  "nat list \<Rightarrow> int \<Rightarrow> int list \<Rightarrow> int list \<Rightarrow> error + (int list \<times> int list)" where
  "boundary_loop [] last_ed_frame_id st ed = Inr (st, ed)"
| "boundary_loop (num_frames # rest) last_ed_frame_id st ed =
     (if num_frames > 0
      then boundary_loop rest (last_ed_frame_id + int num_frames)
             (st @ [last_ed_frame_id]) (ed @ [last_ed_frame_id + int num_frames])
      else Inl AssertionError)"

text \<open>\<^verbatim>\<open>bisect.bisect_right(a, x)\<close> of the Python standard library: the binary search
  \<^verbatim>\<open>while lo < hi: mid = (lo + hi) // 2; if x < a[mid]: hi = mid else: lo = mid + 1\<close>.\<close>

function bisect_loop :: "int list \<Rightarrow> int \<Rightarrow> nat \<Rightarrow> nat \<Rightarrow> nat" where
  "bisect_loop a x lo hi =
     (if lo < hi
      then (let mid = (lo + hi) div 2
            in if x < a ! mid then bisect_loop a x lo mid
               else bisect_loop a x (mid + 1) hi)
      else lo)"
  by pat_completeness auto
termination
  by (relation "measure (\<lambda>(a, x, lo, hi). hi - lo)") auto

declare bisect_loop.simps [simp del]

definition bisect_right :: "int list \<Rightarrow> int \<Rightarrow> nat" where
  "bisect_right a x = bisect_loop a x 0 (length a)"

section \<open>Geometry and point clouds\<close>

type_synonym matrix = "real list list"

text \<open>The calls of the quaternion library are kept symbolic: a quaternion is the term
  built by \<^verbatim>\<open>Quaternion(axis=.., radians=..)\<close>, \<^verbatim>\<open>Quaternion(axis=.., degrees=..)\<close>
  and the product \<^verbatim>\<open>*\<close>.\<close>

datatype angle = Radians real | Degrees real

datatype quaternion = Quaternion "real list" angle | QuatMul quaternion quaternion

text \<open>Modelled from the spec: the classes \<^verbatim>\<open>BoundingBox\<close> and \<^verbatim>\<open>PointCloud\<close> of
  \<^verbatim>\<open>datasets/utils.py\<close> are not part of the sources at hand. A bounding box holds a
  center, extents and an orientation; a point cloud holds a numeric buffer with one row
  per coordinate (3 or 4 rows) and one column per point.\<close>

record bounding_box =
  center :: "real list"
  wlh :: "real list"
  orientation :: quaternion

datatype point_cloud = PointCloud (points: matrix)

text \<open>The dictionary \<^verbatim>\<open>{'pcd': pcd, 'bbox': bbox, 'anno': frame_anno}\<close>.\<close>

record frame_dict =
  pcd :: point_cloud
  bbox :: bounding_box
  anno :: frame_anno

text \<open>Everything outside the class: the files under \<^verbatim>\<open>data_root_dir\<close> and the
  library routines the class calls. A file is given by what reading it returns, or by
  the exception reading it raises. The geometry routines \<^verbatim>\<open>crop_pcd_axis_aligned\<close>,
  \<^verbatim>\<open>merge_template_pcds\<close> and \<^verbatim>\<open>PointCloud.transform\<close> of \<^verbatim>\<open>datasets/utils.py\<close>
  and \<^verbatim>\<open>np.linalg.inv\<close>, \<^verbatim>\<open>float\<close> and \<^verbatim>\<open>sort_values\<close> are parameters.\<close>

record environment =
  label_files :: "int \<Rightarrow> error + label_row list"
  calib_files :: "int \<Rightarrow> error + string list list"
  velodyne_files :: "int \<Rightarrow> int \<Rightarrow> error + real list"
  sort_values :: "frame_anno list \<Rightarrow> frame_anno list"
  float_of :: "string \<Rightarrow> real option"
  linalg_inv :: "matrix \<Rightarrow> error + matrix"
  pcd_transform :: "matrix \<Rightarrow> point_cloud \<Rightarrow> error + point_cloud"
  crop_pcd_axis_aligned :: "point_cloud \<Rightarrow> bounding_box \<Rightarrow> real \<Rightarrow> point_cloud"
  merge_template_pcds ::
    "point_cloud list \<Rightarrow> bounding_box list \<Rightarrow> real \<Rightarrow> real \<Rightarrow> point_cloud"

subsection \<open>Calibration files\<close>

text \<open>\<^verbatim>\<open>[float(x) for x in values[1:]]\<close>: \<^verbatim>\<open>float\<close> raises \<^verbatim>\<open>ValueError\<close> on a
  token that is not a number.\<close>

fun parse_floats :: "(string \<Rightarrow> real option) \<Rightarrow> string list \<Rightarrow> error + real list" where
  "parse_floats conv [] = Inr []"
| "parse_floats conv (s # ss) =
     (case conv s of
        None \<Rightarrow> Inl ValueError
      | Some v \<Rightarrow> (case parse_floats conv ss of Inl e \<Rightarrow> Inl e | Inr vs \<Rightarrow> Inr (v # vs)))"

definition reshape_3_4 :: "real list \<Rightarrow> error + matrix" where
  "reshape_3_4 v =
     (if length v = 12 then Inr [take 4 v, take 4 (drop 4 v), take 4 (drop 8 v)]
      else Inl ValueError)"

text \<open>The loop of \<^verbatim>\<open>_read_calibration_file\<close> over the lines, each line given by its
  tokens \<^verbatim>\<open>line.split()\<close>. Python evaluates the right-hand side of
  \<^verbatim>\<open>data[values[0]] = ...\<close> first, so a line without tokens fails in \<^verbatim>\<open>reshape\<close>
  with \<^verbatim>\<open>ValueError\<close> and is skipped like every other line that does not parse.\<close>

fun calibration_lines ::
  "(string \<Rightarrow> real option) \<Rightarrow> string list list \<Rightarrow> (string \<rightharpoonup> matrix) \<Rightarrow> (string \<rightharpoonup> matrix)"
  where
  "calibration_lines conv [] data = data"
| "calibration_lines conv (values # rest) data =
     (case parse_floats conv (tl values) of
        Inl e \<Rightarrow> calibration_lines conv rest data
      | Inr vs \<Rightarrow>
          (case reshape_3_4 vs of
             Inl e \<Rightarrow> calibration_lines conv rest data
           | Inr m \<Rightarrow> calibration_lines conv rest (data(hd values \<mapsto> m))))"

definition read_calibration_file :: "environment \<Rightarrow> int \<Rightarrow> error + (string \<rightharpoonup> matrix)" where
  "read_calibration_file env scene_id =
     (case calib_files env scene_id of
        Inl e \<Rightarrow> Inl e
      | Inr lines \<Rightarrow> Inr (calibration_lines (float_of env) lines Map.empty))"

subsection \<open>Building one frame\<close>

type_synonym calib_memo = "int \<rightharpoonup> (string \<rightharpoonup> matrix)"

text \<open>The first lines of \<^verbatim>\<open>_build_frame\<close>: the calibration of the scene, read once and
  kept in \<^verbatim>\<open>self.calibration_info\<close>. The result carries the updated memo.\<close>

definition get_calib ::
  "environment \<Rightarrow> calib_memo \<Rightarrow> int \<Rightarrow> (error + (string \<rightharpoonup> matrix)) \<times> calib_memo" where
  "get_calib env calibration_info scene_id =
     (case calibration_info scene_id of
        Some calib \<Rightarrow> (Inr calib, calibration_info)
      | None \<Rightarrow>
          (case read_calibration_file env scene_id of
             Inl e \<Rightarrow> (Inl e, calibration_info)
           | Inr calib \<Rightarrow> (Inr calib, calibration_info(scene_id \<mapsto> calib))))"

text \<open>\<^verbatim>\<open>np.vstack((calib["Tr_velo_cam"], np.array([0, 0, 0, 1])))\<close>.\<close>

definition velo_to_cam_of :: "(string \<rightharpoonup> matrix) \<Rightarrow> error + matrix" where
  "velo_to_cam_of calib =
     (case calib ''Tr_velo_cam'' of
        None \<Rightarrow> Inl KeyError
      | Some m \<Rightarrow> Inr (m @ [[0, 0, 0, 1]]))"

text \<open>\<^verbatim>\<open>np.dot(m, v)\<close> of a matrix and a vector; the shapes must agree.\<close>

definition np_dot :: "matrix \<Rightarrow> real list \<Rightarrow> error + real list" where
  "np_dot m v =
     (if list_all (\<lambda>row. length row = length v) m
      then Inr (map (\<lambda>row. sum_list (map2 (*) row v)) m)
      else Inl ValueError)"

text \<open>The assertion on the coordinate mode and the two branches that build the box.\<close>

definition build_bbox ::
  "environment \<Rightarrow> string \<Rightarrow> matrix \<Rightarrow> frame_anno \<Rightarrow> error + bounding_box" where
  "build_bbox env mode velo_to_cam frame_anno =
     (if mode \<noteq> ''camera'' \<and> mode \<noteq> ''velodyne'' then Inl AssertionError
      else if mode = ''camera'' then
        Inr \<lparr>center = [pos_x frame_anno, pos_y frame_anno - height frame_anno / 2,
                       pos_z frame_anno],
             wlh = [width frame_anno, box_length frame_anno, height frame_anno],
             orientation = QuatMul (Quaternion [0, 1, 0] (Radians (rotation_y frame_anno)))
                                   (Quaternion [1, 0, 0] (Radians (pi / 2)))\<rparr>
      else
        (let box_center_cam = [pos_x frame_anno, pos_y frame_anno - height frame_anno / 2,
                               pos_z frame_anno, 1]
         in case linalg_inv env velo_to_cam of
              Inl e \<Rightarrow> Inl e
            | Inr inv_m \<Rightarrow>
                (case np_dot inv_m box_center_cam of
                   Inl e \<Rightarrow> Inl e
                 | Inr box_center_velo \<Rightarrow>
                     Inr \<lparr>center = take 3 box_center_velo,
                          wlh = [width frame_anno, box_length frame_anno, height frame_anno],
                          orientation =
                            QuatMul (Quaternion [0, 0, -1] (Radians (rotation_y frame_anno)))
                                    (Quaternion [0, 0, -1] (Degrees 90))\<rparr>)))"

text \<open>\<^verbatim>\<open>buf.reshape(-1, 4)\<close> and \<^verbatim>\<open>.T\<close>: the buffer must hold a multiple of four
  numbers; the transposed array has four rows.\<close>

definition reshape_rows_4 :: "real list \<Rightarrow> error + matrix" where
  "reshape_rows_4 buf =
     (if length buf mod 4 = 0
      then Inr (map (\<lambda>i. take 4 (drop (4 * i) buf)) [0 ..< length buf div 4])
      else Inl ValueError)"

definition transpose_4 :: "matrix \<Rightarrow> matrix" where
  "transpose_4 rows = map (\<lambda>c. map (\<lambda>r. r ! c) rows) [0 ..< 4]"

text \<open>The body of the \<^verbatim>\<open>try\<close> block: read the buffer, reshape, wrap, and transform in
  camera mode. Any exception of the block is its result here.\<close>

definition load_pcd ::
  "environment \<Rightarrow> string \<Rightarrow> matrix \<Rightarrow> int \<Rightarrow> int \<Rightarrow> error + point_cloud" where
  "load_pcd env mode velo_to_cam scene_id frame_id =
     (case velodyne_files env scene_id frame_id of
        Inl e \<Rightarrow> Inl e
      | Inr buf \<Rightarrow>
          (case reshape_rows_4 buf of
             Inl e \<Rightarrow> Inl e
           | Inr rows \<Rightarrow>
               (if mode = ''camera''
                then pcd_transform env velo_to_cam (PointCloud (transpose_4 rows))
                else Inr (PointCloud (transpose_4 rows)))))"

text \<open>\<^verbatim>\<open>PointCloud(np.array([[0, 0, 0]]).T)\<close>.\<close>

definition placeholder_pcd :: point_cloud where
  "placeholder_pcd = PointCloud [[0], [0], [0]]"

text \<open>The part of \<^verbatim>\<open>_build_frame\<close> before the \<^verbatim>\<open>try\<close>: calibration, homogeneous
  matrix, mode assertion and bounding box.\<close>

definition frame_prelude ::
  "environment \<Rightarrow> string \<Rightarrow> calib_memo \<Rightarrow> frame_anno \<Rightarrow>
   (error + (matrix \<times> bounding_box)) \<times> calib_memo" where
  "frame_prelude env mode calibration_info frame_anno =
     (case get_calib env calibration_info (scene frame_anno) of
        (Inl e, ci) \<Rightarrow> (Inl e, ci)
      | (Inr calib, ci) \<Rightarrow>
          (case velo_to_cam_of calib of
             Inl e \<Rightarrow> (Inl e, ci)
           | Inr velo_to_cam \<Rightarrow>
               (case build_bbox env mode velo_to_cam frame_anno of
                  Inl e \<Rightarrow> (Inl e, ci)
                | Inr b \<Rightarrow> (Inr (velo_to_cam, b), ci))))"

text \<open>\<^verbatim>\<open>_build_frame\<close>: the bare \<^verbatim>\<open>except\<close> replaces every exception of the
  \<^verbatim>\<open>try\<close> block by the placeholder cloud.\<close>

definition build_frame ::
  "environment \<Rightarrow> string \<Rightarrow> calib_memo \<Rightarrow> frame_anno \<Rightarrow> (error + frame_dict) \<times> calib_memo"
  where
  "build_frame env mode calibration_info frame_anno =
     (case frame_prelude env mode calibration_info frame_anno of
        (Inl e, ci) \<Rightarrow> (Inl e, ci)
      | (Inr (velo_to_cam, b), ci) \<Rightarrow>
          (Inr \<lparr>pcd = (case load_pcd env mode velo_to_cam (scene frame_anno) (frame frame_anno) of
                         Inl e \<Rightarrow> placeholder_pcd
                       | Inr p \<Rightarrow> p),
                bbox = b, anno = frame_anno\<rparr>, ci))"

section \<open>The dataset object\<close>

text \<open>The options of \<^verbatim>\<open>cfg\<close> the class reads. \<^verbatim>\<open>preload_interval\<close> is read with
  \<^verbatim>\<open>getattr(cfg, 'preload_interval', 1)\<close>: \<open>None\<close> stands for an absent attribute.\<close>

record config =
  category_name :: string
  debug :: bool
  cfg_preload_interval :: "pyval option"
  cfg_preload_offset :: real
  cache_train :: bool
  cache_eval :: bool
  coordinate_mode :: string
  model_offset :: real
  model_scale :: real
  data_root_dir :: string

text \<open>One entry of the cached materialization:
  \<^verbatim>\<open>{'comp_template_pcd': .., 'frames': ..}\<close>.\<close>

record tracklet =
  comp_template_pcd :: point_cloud
  frames :: "frame_dict list"

text \<open>The attributes of \<^verbatim>\<open>self\<close>. \<open>tracklets = None\<close> is \<^verbatim>\<open>self.tracklets = None\<close>.\<close>

record dataset =
  split_type :: string
  cfg :: config
  preload_interval :: pyval
  preload_offset :: real
  cache :: bool
  calibration_info :: calib_memo
  tracklet_annotations :: "frame_anno list list"
  tracklet_num_frames :: "nat list"
  tracklet_st_frame_id :: "int list"
  tracklet_ed_frame_id :: "int list"
  tracklets :: "tracklet list option"

text \<open>The cache file is identified by what its path is built from: the data root, the
  debug flag, the category, the split, the coordinate mode, the crop offset and the
  subsampling interval. The persisted artifacts are a map from these keys to the pickled
  list of tracklets.\<close>

type_synonym cache_key = "string \<times> bool \<times> string \<times> string \<times> string \<times> real \<times> pyval"

type_synonym cache_store = "cache_key \<rightharpoonup> tracklet list"

definition cache_file_dir :: "config \<Rightarrow> string \<Rightarrow> real \<Rightarrow> pyval \<Rightarrow> cache_key" where
  "cache_file_dir c stype offset interval =
     (data_root_dir c, debug c, category_name c, stype, coordinate_mode c, offset, interval)"

definition split_type_to_scene_ids :: "bool \<Rightarrow> string \<Rightarrow> error + int list" where
  "split_type_to_scene_ids dbg stype =
     (if \<not> dbg then
        (if stype = ''train'' then Inr [0 .. 16]
         else if stype = ''val'' then Inr [17 .. 18]
         else if stype = ''test'' then Inr [19 .. 20]
         else Inl KeyError)
      else
        (if stype = ''train'' then Inr [0]
         else if stype = ''val'' then Inr [18]
         else if stype = ''test'' then Inr [19]
         else Inl KeyError))"

text \<open>The inner loop of the cache-miss branch:
  \<^verbatim>\<open>for frame_anno in ..: frames.append(self._build_frame(frame_anno))\<close>.\<close>

fun frames_loop ::
  "environment \<Rightarrow> string \<Rightarrow> calib_memo \<Rightarrow> frame_anno list \<Rightarrow> frame_dict list \<Rightarrow>
   (error + frame_dict list) \<times> calib_memo" where
  "frames_loop env mode ci [] built = (Inr built, ci)"
| "frames_loop env mode ci (frame_anno # rest) built =
     (case build_frame env mode ci frame_anno of
        (Inl e, ci') \<Rightarrow> (Inl e, ci')
      | (Inr f, ci') \<Rightarrow> frames_loop env mode ci' rest (built @ [f]))"

text \<open>\<^verbatim>\<open>for frame in frames: frame['pcd'] = crop_pcd_axis_aligned(frame['pcd'],
  frame['bbox'], offset=self.preload_offset)\<close>.\<close>

definition crop_frame :: "environment \<Rightarrow> real \<Rightarrow> frame_dict \<Rightarrow> frame_dict" where
  "crop_frame env offset f = f\<lparr>pcd := crop_pcd_axis_aligned env (pcd f) (bbox f) offset\<rparr>"

text \<open>The body of the loop over tracklet ids in the cache-miss branch: build the frames,
  merge the template, then crop when the offset is positive.\<close>

definition materialize_tracklet ::
  "environment \<Rightarrow> config \<Rightarrow> real \<Rightarrow> calib_memo \<Rightarrow> frame_anno list \<Rightarrow>
   (error + tracklet) \<times> calib_memo" where
  "materialize_tracklet env c offset ci tracklet_anno =
     (case frames_loop env (coordinate_mode c) ci tracklet_anno [] of
        (Inl e, ci') \<Rightarrow> (Inl e, ci')
      | (Inr built, ci') \<Rightarrow>
          (let template = merge_template_pcds env (map pcd built) (map bbox built)
                            (model_offset c) (model_scale c);
               stored = (if offset > 0 then map (crop_frame env offset) built else built)
           in (Inr \<lparr>comp_template_pcd = template, frames = stored\<rparr>, ci')))"

fun tracklets_loop ::
  "environment \<Rightarrow> config \<Rightarrow> real \<Rightarrow> calib_memo \<Rightarrow> frame_anno list list \<Rightarrow> tracklet list \<Rightarrow>
   (error + tracklet list) \<times> calib_memo" where
  "tracklets_loop env c offset ci [] acc = (Inr acc, ci)"
| "tracklets_loop env c offset ci (tracklet_anno # rest) acc =
     (case materialize_tracklet env c offset ci tracklet_anno of
        (Inl e, ci') \<Rightarrow> (Inl e, ci')
      | (Inr t, ci') \<Rightarrow> tracklets_loop env c offset ci' rest (acc @ [t]))"

text \<open>\<^verbatim>\<open>KITTIFull.__init__\<close>, first part (up to the boundary loop): the assertion on
  the category, the scene ids of the split, the attributes read from \<^verbatim>\<open>cfg\<close>, the
  tracklet annotations and the index boundaries. \<^verbatim>\<open>self.tracklets\<close> is not yet set;
  the record holds \<open>None\<close> for it.\<close>

definition init_index :: "environment \<Rightarrow> string \<Rightarrow> config \<Rightarrow> error + dataset" where
  "init_index env stype c =
     (if category_name c \<notin> set [''Van'', ''Car'', ''Pedestrian'', ''Cyclist'', ''All'']
      then Inl AssertionError
      else
        (let interval = (case cfg_preload_interval c of None \<Rightarrow> PyInt 1 | Some v \<Rightarrow> v);
             offset = (if stype = ''train'' then cfg_preload_offset c else - 1);
             use_cache = (if stype = ''train'' then cache_train c else cache_eval c)
         in case split_type_to_scene_ids (debug c) stype of
              Inl e \<Rightarrow> Inl e
            | Inr scene_ids \<Rightarrow>
          (case build_tracklet_annotations (sort_values env) (label_files env)
                  (category_name c) interval stype scene_ids of
              Inl e \<Rightarrow> Inl e
            | Inr annos \<Rightarrow>
          (case boundary_loop (map length annos) 0 [] [] of
              Inl e \<Rightarrow> Inl e
            | Inr (st, ed) \<Rightarrow>
                Inr \<lparr>split_type = stype, cfg = c, preload_interval = interval,
                     preload_offset = offset, cache = use_cache,
                     calibration_info = Map.empty, tracklet_annotations = annos,
                     tracklet_num_frames = map length annos,
                     tracklet_st_frame_id = st, tracklet_ed_frame_id = ed,
                     tracklets = None\<rparr>))))"

text \<open>\<^verbatim>\<open>KITTIFull.__init__\<close>, second part (\<^verbatim>\<open>if self.cache: ... else: ...\<close>): load
  the persisted tracklets when the cache file exists; otherwise materialize every
  tracklet and persist the result. The result is the object and the cache store, which
  gains an entry on a cache miss.\<close>

definition init_cache ::
  "environment \<Rightarrow> cache_store \<Rightarrow> dataset \<Rightarrow> error + (dataset \<times> cache_store)" where
  "init_cache env store self =
     (if cache self then
        (case store (cache_file_dir (cfg self) (split_type self) (preload_offset self)
                       (preload_interval self)) of
           Some loaded \<Rightarrow> Inr (self\<lparr>tracklets := Some loaded\<rparr>, store)
         | None \<Rightarrow>
             (case tracklets_loop env (cfg self) (preload_offset self) (calibration_info self)
                     (tracklet_annotations self) [] of
                (Inl e, ci) \<Rightarrow> Inl e
              | (Inr ts, ci) \<Rightarrow>
                  Inr (self\<lparr>calibration_info := ci, tracklets := Some ts\<rparr>,
                       store(cache_file_dir (cfg self) (split_type self) (preload_offset self)
                               (preload_interval self) \<mapsto> ts))))
      else Inr (self, store))"

definition init_dataset ::
  "environment \<Rightarrow> cache_store \<Rightarrow> string \<Rightarrow> config \<Rightarrow> error + (dataset \<times> cache_store)" where
  "init_dataset env store stype c =
     (case init_index env stype c of
        Inl e \<Rightarrow> Inl e
      | Inr self \<Rightarrow> init_cache env store self)"

subsection \<open>Accessors\<close>

definition num_tracklets :: "dataset \<Rightarrow> int" where
  "num_tracklets self = int (length (tracklet_annotations self))"

text \<open>\<^verbatim>\<open>self.tracklet_ed_frame_id[-1]\<close>.\<close>

definition num_frames :: "dataset \<Rightarrow> error + int" where
  "num_frames self = py_getitem (tracklet_ed_frame_id self) (- 1)"

definition num_tracklet_frames :: "dataset \<Rightarrow> int \<Rightarrow> error + nat" where
  "num_tracklet_frames self tracklet_id = py_getitem (tracklet_num_frames self) tracklet_id"

text \<open>\<^verbatim>\<open>get_frame\<close>: \<^verbatim>\<open>if self.tracklets:\<close> is true for a non-empty list only. The
  on-demand branch updates the calibration memo of the object.\<close>

definition get_frame ::
  "environment \<Rightarrow> dataset \<Rightarrow> int \<Rightarrow> int \<Rightarrow> (error + frame_dict) \<times> dataset" where
  "get_frame env self tracklet_id frame_id =
     (case tracklets self of
        Some (t # ts) \<Rightarrow>
          (case py_getitem (t # ts) tracklet_id of
             Inl e \<Rightarrow> (Inl e, self)
           | Inr entry \<Rightarrow> (py_getitem (frames entry) frame_id, self))
      | _ \<Rightarrow>
          (case py_getitem (tracklet_annotations self) tracklet_id of
             Inl e \<Rightarrow> (Inl e, self)
           | Inr tracklet_anno \<Rightarrow>
               (case py_getitem tracklet_anno frame_id of
                  Inl e \<Rightarrow> (Inl e, self)
                | Inr frame_anno \<Rightarrow>
                    (case build_frame env (coordinate_mode (cfg self)) (calibration_info self)
                            frame_anno of
                       (Inl e, ci) \<Rightarrow> (Inl e, self\<lparr>calibration_info := ci\<rparr>)
                     | (Inr f, ci) \<Rightarrow>
                         (Inr (if preload_offset self > 0
                               then crop_frame env (preload_offset self) f else f),
                          self\<lparr>calibration_info := ci\<rparr>)))))"

text \<open>\<^verbatim>\<open>get_comp_template_pcd\<close>: subscripting \<^verbatim>\<open>None\<close> raises \<^verbatim>\<open>TypeError\<close>.\<close>

definition get_comp_template_pcd :: "dataset \<Rightarrow> int \<Rightarrow> error + point_cloud" where
  "get_comp_template_pcd self tracklet_id =
     (case tracklets self of
        None \<Rightarrow> Inl TypeError
      | Some ts \<Rightarrow>
          (case py_getitem ts tracklet_id of
             Inl e \<Rightarrow> Inl e
           | Inr entry \<Rightarrow> Inr (comp_template_pcd entry)))"

text \<open>\<^verbatim>\<open>get_tracklet_frame_id\<close>: the assertion reads \<^verbatim>\<open>tracklet_st_frame_id\<close> first
  and \<^verbatim>\<open>tracklet_ed_frame_id\<close> only when the first comparison holds.\<close>

definition get_tracklet_frame_id :: "dataset \<Rightarrow> int \<Rightarrow> error + (int \<times> int)" where
  "get_tracklet_frame_id self idx =
     (let tracklet_id = int (bisect_right (tracklet_ed_frame_id self) idx)
      in case py_getitem (tracklet_st_frame_id self) tracklet_id of
           Inl e \<Rightarrow> Inl e
         | Inr st \<Rightarrow>
             (if st \<le> idx then
                (case py_getitem (tracklet_ed_frame_id self) tracklet_id of
                   Inl e \<Rightarrow> Inl e
                 | Inr ed \<Rightarrow>
                     (if idx < ed then Inr (tracklet_id, idx - st) else Inl AssertionError))
              else Inl AssertionError))"

subsection \<open>The calibration memo\<close>

text \<open>The memo \<^verbatim>\<open>self.calibration_info\<close> only ever holds what
  \<^verbatim>\<open>_read_calibration_file\<close> returned for the scene: the invariant under which a frame
  built with the memo is the frame built without it.\<close>

definition memo_ok :: "environment \<Rightarrow> calib_memo \<Rightarrow> bool" where
  "memo_ok env ci =
     (\<forall>scene_id calib. ci scene_id = Some calib \<longrightarrow>
        read_calibration_file env scene_id = Inr calib)"

section \<open>A small dataset\<close>

text \<open>A data root with one training scene (scene 0) holding two cars and a pedestrian,
  identity calibration, and point-cloud files of which one is complete (frame 0), one
  is missing (frame 1) and one is truncated (frame 2). The validation scene (scene 18)
  holds one car; the test scene holds no object.\<close>

definition demo_row :: "int \<Rightarrow> int \<Rightarrow> string \<Rightarrow> label_row" where
  "demo_row f tid ty =
     \<lparr>frame = f, track_id = tid, obj_type = ty, truncated = 0, occluded = 0, alpha = 0,
      bbox_left = 0, bbox_top = 0, bbox_right = 0, bbox_bottom = 0,
      height = 2, width = 1, box_length = 4, pos_x = 1, pos_y = 3, pos_z = 10,
      rotation_y = 0\<rparr>"

definition demo_float :: "string \<Rightarrow> real option" where
  "demo_float s = (if s = ''0'' then Some 0 else if s = ''1'' then Some 1 else None)"

definition demo_env :: environment where
  "demo_env =
     \<lparr>label_files = (\<lambda>s. if s = 0
          then Inr [demo_row 2 0 ''Car'', demo_row 0 0 ''Car'', demo_row 0 1 ''Car'',
                    demo_row 1 0 ''Car'', demo_row 0 2 ''Pedestrian'']
          else if s = 18 then Inr [demo_row 0 5 ''Car'']
          else Inr []),
      calib_files = (\<lambda>s. Inr [[''calib_time:'', ''09-Jan-2012''],
                              [''Tr_velo_cam'', ''1'', ''0'', ''0'', ''0'', ''0'', ''1'', ''0'', ''0'',
                               ''0'', ''0'', ''1'', ''0'']]),
      velodyne_files = (\<lambda>s f. if f = 0 then Inr [1, 2, 3, 4, 5, 6, 7, 8]
                                else if f = 1 then Inl FileNotFoundError
                                else Inr [1, 2, 3]),
      sort_values = sort_key frame,
      float_of = demo_float,
      linalg_inv = (\<lambda>m. if m = [[1, 0, 0, 0], [0, 1, 0, 0], [0, 0, 1, 0], [0, 0, 0, 1]]
                          then Inr m else Inl LinAlgError),
      pcd_transform = (\<lambda>m p. Inr p),
      crop_pcd_axis_aligned = (\<lambda>p b off. PointCloud (map (take 1) (points p))),
      merge_template_pcds = (\<lambda>ps bs off sc. PointCloud (concat (map points ps)))\<rparr>"

definition demo_cfg :: config where
  "demo_cfg =
     \<lparr>category_name = ''Car'', debug = True, cfg_preload_interval = Some (PyInt 2),
      cfg_preload_offset = 1, cache_train = False, cache_eval = False,
      coordinate_mode = ''velodyne'', model_offset = 0, model_scale = 1,
      data_root_dir = ''data''\<rparr>"


definition demo_anno :: "int \<Rightarrow> int \<Rightarrow> int \<Rightarrow> frame_anno" where
  "demo_anno s f tid = insert_scene s (demo_row f tid ''Car'')"

definition demo_store :: cache_store where
  "demo_store = Map.empty"

text \<open>The same data root with a calibration as the dataset has it: the sensor looks
  along the camera's \<open>z\<close> axis, so that camera coordinates are \<open>(- y, - z, x)\<close> of the
  sensor coordinates. The inversion routine inverts rigid transforms.\<close>

definition kitti_float :: "string \<Rightarrow> real option" where
  "kitti_float s = (if s = ''0'' then Some 0 else if s = ''1'' then Some 1
                    else if s = ''-1'' then Some (- 1) else None)"

text \<open>The inverse of a rigid transform \<open>[R | t; 0 0 0 1]\<close> with \<open>R\<close> orthogonal, which is
  \<open>[R\<^sup>T | - R\<^sup>T t; 0 0 0 1]\<close>; every other matrix is refused.\<close>

definition rigid_inv :: "matrix \<Rightarrow> error + matrix" where
  "rigid_inv m =
     (let r = map (take 3) (take 3 m);
          t = map (\<lambda>row. row ! 3) (take 3 m);
          rt = map (\<lambda>c. map (\<lambda>row. row ! c) r) [0 ..< 3]
      in if length m = 4 \<and> list_all (\<lambda>row. length row = 4) m \<and> m ! 3 = [0, 0, 0, 1]
            \<and> map (\<lambda>row. map (\<lambda>col. sum_list (map2 (*) row col)) r) r
                = [[1, 0, 0], [0, 1, 0], [0, 0, 1]]
         then Inr (map (\<lambda>row. row @ [- sum_list (map2 (*) row t)]) rt @ [[0, 0, 0, 1]])
         else Inl LinAlgError)"

definition kitti_env :: environment where
  "kitti_env = demo_env
     \<lparr>calib_files := (\<lambda>s. Inr [[''Tr_velo_cam'', ''0'', ''-1'', ''0'', ''0'',
                                 ''0'', ''0'', ''-1'', ''0'', ''1'', ''0'', ''0'', ''0'']]),
      float_of := kitti_float,
      linalg_inv := rigid_inv\<rparr>"


section \<open>Slices and fixed-interval subsampling\<close>

lemma every_kth_length: "0 < k \<Longrightarrow> length (every_kth k xs) = (length xs + k - 1) div k"
proof (induction k xs rule: every_kth.induct)
  case (1 k)
  then show ?case by simp
next
  case (2 k x xs)
  show ?case
  proof (cases "length xs < k - 1")
    case True
    with 2 show ?thesis by simp
  next
    case False
    with 2 have "length (every_kth k (x # xs)) = Suc ((length xs - (k - 1) + k - 1) div k)" by simp
    also have "length xs - (k - 1) + k - 1 = length xs" using False 2 by simp
    also have "Suc (length xs div k) = (length (x # xs) + k - 1) div k" using 2(2) by simp
    finally show ?thesis .
  qed
qed

lemma lt_ceil_div: "0 < k \<Longrightarrow> (j < (m + k - 1) div k) = (j * k < (m::nat))"
proof -
  assume k: "0 < k"
  have "(j < (m + k - 1) div k) = (\<not> (m + k - 1) div k < Suc j)" by auto
  also have "\<dots> = (\<not> m + k - 1 < Suc j * k)" using k by (simp add: div_less_iff_less_mult)
  also have "\<dots> = (j * k < m)" using k by auto
  finally show ?thesis .
qed

lemma every_kth_nth: "0 < k \<Longrightarrow> j < length (every_kth k xs) \<Longrightarrow> every_kth k xs ! j = xs ! (j * k)"
proof (induction k xs arbitrary: j rule: every_kth.induct)
  case (1 k)
  then show ?case by simp
next
  case (2 k x xs)
  show ?case
  proof (cases j)
    case 0
    then show ?thesis by simp
  next
    case (Suc j')
    with 2 have lt: "j' < length (every_kth k (drop (k - 1) xs))" by simp
    then have ne: "drop (k - 1) xs \<noteq> []" by auto
    have "every_kth k (x # xs) ! j = every_kth k (drop (k - 1) xs) ! j'" using Suc by simp
    also have "\<dots> = drop (k - 1) xs ! (j' * k)" using 2 lt by simp
    also have "\<dots> = xs ! (k - 1 + j' * k)"
    proof -
      have "j' * k < length (drop (k - 1) xs)"
        using lt every_kth_length[OF 2(2), of "drop (k - 1) xs"] lt_ceil_div[OF 2(2)]
        by simp
      then show ?thesis by simp
    qed
    also have "\<dots> = (x # xs) ! (j * k)" using Suc 2(2) by (cases k) (simp_all add: ac_simps)
    finally show ?thesis .
  qed
qed

lemma py_slice_step_length:
  "0 < k \<Longrightarrow> length (py_slice_step xs i k) = (length xs - i + k - 1) div k"
  by (simp add: py_slice_step_def every_kth_length)

lemma py_slice_step_nth:
  assumes "0 < k" "j < length (py_slice_step xs i k)"
  shows "py_slice_step xs i k ! j = xs ! (i + j * k)" and "i + j * k < length xs"
proof -
  have "j * k < length xs - i"
    using assms py_slice_step_length[OF assms(1), of xs i] lt_ceil_div[OF assms(1)] by simp
  then show "i + j * k < length xs" by simp
  then show "py_slice_step xs i k ! j = xs ! (i + j * k)"
    using assms by (simp add: py_slice_step_def every_kth_nth)
qed

lemma py_slice_step_eq:
  "0 < k \<Longrightarrow> py_slice_step xs i k = map (\<lambda>j. xs ! (i + j * k)) [0 ..< (length xs - i + k - 1) div k]"
  by (rule nth_equalityI) (simp_all add: py_slice_step_length py_slice_step_nth)

lemma subsample_interval_length:
  "length (subsample_interval k g) = nat (min (int (length g)) k)"
  by (simp add: subsample_interval_def)

lemma subsample_interval_one: "g \<noteq> [] \<Longrightarrow> subsample_interval 1 g = [g]"
proof -
  assume "g \<noteq> []"
  then have "nat (min (int (length g)) 1) = 1" by (cases g) auto
  moreover have "py_slice_step g 0 1 = g"
    by (rule nth_equalityI) (simp_all add: py_slice_step_length py_slice_step_nth)
  ultimately show ?thesis by (simp add: subsample_interval_def)
qed

lemma phase_positions_bij:
  assumes k: "0 < k"
  shows "bij_betw (\<lambda>(p, j). p + j * k)
           {(p, j). p < min n k \<and> j < (n - p + k - 1) div k} {..< (n::nat)}"
proof (rule bij_betw_byWitness[where f' = "\<lambda>i. (i mod k, i div k)"])
  show "\<forall>a\<in>{(p, j). p < min n k \<and> j < (n - p + k - 1) div k}.
       (case case a of (p, j) \<Rightarrow> p + j * k of i \<Rightarrow> (i mod k, i div k)) = a"
    using k by auto
  show "\<forall>a'\<in>{..<n}. (case (a' mod k, a' div k) of (p, j) \<Rightarrow> p + j * k) = a'"
    by simp
  show "(\<lambda>(p, j). p + j * k) ` {(p, j). p < min n k \<and> j < (n - p + k - 1) div k} \<subseteq> {..<n}"
  proof
    fix i assume "i \<in> (\<lambda>(p, j). p + j * k) ` {(p, j). p < min n k \<and> j < (n - p + k - 1) div k}"
    then obtain p j where pj: "i = p + j * k" "p < min n k" "j < (n - p + k - 1) div k" by auto
    from pj(3) have "j * k < n - p" using lt_ceil_div[OF k] by simp
    then show "i \<in> {..<n}" using pj(1) by simp
  qed
  show "(\<lambda>i. (i mod k, i div k)) ` {..<n} \<subseteq> {(p, j). p < min n k \<and> j < (n - p + k - 1) div k}"
  proof
    fix a assume "a \<in> (\<lambda>i. (i mod k, i div k)) ` {..<n}"
    then obtain i where i: "i < n" "a = (i mod k, i div k)" by auto
    have a1: "i mod k < k" using k by simp
    have a2: "i mod k < n" using i(1) mod_less_eq_dividend[of i k] by linarith
    have "i div k * k + i mod k = i" by simp
    then have "i div k * k < n - i mod k" using i(1) by linarith
    then have a3: "i div k < (n - i mod k + k - 1) div k" by (simp only: lt_ceil_div[OF k])
    show "a \<in> {(p, j). p < min n k \<and> j < (n - p + k - 1) div k}"
      using a1 a2 a3 i(2) by simp
  qed
qed

lemma subsample_interval_nth:
  "p < nat (min (int (length g)) k) \<Longrightarrow> subsample_interval k g ! p = py_slice_step g p (nat k)"
  by (simp add: subsample_interval_def)

text \<open>
  Claim C3. For a grouped and sorted physical track of length \<open>n\<close> and a fixed interval
  \<open>k \<ge> 1\<close>, the indexer emits exactly \<open>min n k\<close> tracklets, the one of phase \<open>p\<close>
  being the slice \<^verbatim>\<open>track[p::k]\<close>, that is the records at the positions
  \<open>p, p + k, p + 2k, \<dots>\<close> below \<open>n\<close>. Every position of the track occurs in exactly one
  tracklet, at exactly one place: the phases are pairwise disjoint and cover the track.
  With \<open>k = 1\<close> a track (which has at least one record) yields the single tracklet
  equal to the track, in its order.
\<close>

theorem fixed_interval_subsampling:
  fixes track :: "'a list" and k :: int
  assumes "1 \<le> k"
  shows "subsample_track (PyInt k) stype track = Inr (subsample_interval k track)
       \<and> length (subsample_interval k track) = min (length track) (nat k)
       \<and> (\<forall>p < min (length track) (nat k).
             subsample_interval k track ! p = py_slice_step track p (nat k)
           \<and> py_slice_step track p (nat k) =
               map (\<lambda>j. track ! (p + j * nat k))
                   [0 ..< (length track - p + nat k - 1) div nat k])
       \<and> bij_betw (\<lambda>(p, j). p + j * nat k)
            {(p, j). p < length (subsample_interval k track)
                   \<and> j < length (subsample_interval k track ! p)}
            {..< length track}
       \<and> (\<forall>p j. p < length (subsample_interval k track)
               \<longrightarrow> j < length (subsample_interval k track ! p)
               \<longrightarrow> subsample_interval k track ! p ! j = track ! (p + j * nat k))
       \<and> (k = 1 \<and> track \<noteq> [] \<longrightarrow> subsample_interval k track = [track])"
proof -
  let ?T = "subsample_interval k track"
  let ?n = "length track"
  have k: "0 < nat k" using assms by simp
  have m: "nat (min (int ?n) k) = min ?n (nat k)" using assms by simp
  have len: "length ?T = min ?n (nat k)" using m by (simp add: subsample_interval_length)
  have nth: "?T ! p = py_slice_step track p (nat k)" if "p < min ?n (nat k)" for p
    using that m by (simp add: subsample_interval_nth)
  have c1: "subsample_track (PyInt k) stype track = Inr ?T"
    by (simp add: subsample_track_def)
  have c3: "\<forall>p < min ?n (nat k). ?T ! p = py_slice_step track p (nat k)
           \<and> py_slice_step track p (nat k) =
               map (\<lambda>j. track ! (p + j * nat k)) [0 ..< (?n - p + nat k - 1) div nat k]"
    using nth py_slice_step_eq[OF k] by blast
  have sets: "{(p, j). p < length ?T \<and> j < length (?T ! p)}
            = {(p, j). p < min ?n (nat k) \<and> j < (?n - p + nat k - 1) div nat k}"
    by (auto simp: len nth py_slice_step_length[OF k])
  have c4: "bij_betw (\<lambda>(p, j). p + j * nat k)
            {(p, j). p < length ?T \<and> j < length (?T ! p)} {..< ?n}"
    unfolding sets by (rule phase_positions_bij[OF k])
  have c5: "\<forall>p j. p < length ?T \<longrightarrow> j < length (?T ! p)
               \<longrightarrow> ?T ! p ! j = track ! (p + j * nat k)"
    by (simp add: len nth py_slice_step_nth(1)[OF k])
  have c6: "k = 1 \<and> track \<noteq> [] \<longrightarrow> ?T = [track]"
    using subsample_interval_one by blast
  show ?thesis using c1 len c3 c4 c5 c6 by blast
qed

theorem fixed_interval_subsampling_witness:
  "(1::int) \<le> 3
   \<and> subsample_track (PyInt 3) ''train'' [10, 11, 12, 13, 14, 15, 16 :: nat]
       = Inr [[10, 13, 16], [11, 14], [12, 15]]
   \<and> length (subsample_interval 3 [10, 11, 12, 13, 14, 15, 16 :: nat]) = 3
   \<and> bij_betw (\<lambda>(p, j). p + j * nat 3)
            {(p, j). p < length (subsample_interval 3 [10, 11, 12, 13, 14, 15, 16 :: nat])
                   \<and> j < length (subsample_interval 3 [10, 11, 12, 13, 14, 15, 16 :: nat] ! p)}
            {..< length [10, 11, 12, 13, 14, 15, 16 :: nat]}"
proof -
  have h: "(1::int) \<le> 3" by simp
  have ev: "subsample_interval 3 [10, 11, 12, 13, 14, 15, 16 :: nat] = [[10, 13, 16], [11, 14], [12, 15]]"
    by (simp add: subsample_interval_def py_slice_step_def upt_conv_Cons)
  show ?thesis
    using h ev fixed_interval_subsampling[OF h, of "''train''" "[10, 11, 12, 13, 14, 15, 16 :: nat]"]
    by simp
qed

lemma track_loop_all:
  "track_loop srt (PyStr ''all'') stype data tids acc =
     Inr (acc @ concat (map (\<lambda>tid. concat (map (\<lambda>k. subsample_interval k (srt (filter (\<lambda>a. track_id a = tid) data)))
                                          (if stype = ''train'' then [1, 2, 3, 5, 10] else [5]))) tids))"
proof (cases "stype = ''train''")
  case True
  show ?thesis unfolding True
    by (induction tids arbitrary: acc) (simp_all add: subsample_track_def)
next
  case False
  then show ?thesis
    by (induction tids arbitrary: acc) (simp_all add: subsample_track_def)
qed

text \<open>
  Claim C4. With \<^verbatim>\<open>preload_interval == 'all'\<close> the indexer runs the fixed-interval
  procedure once per interval and appends the results in the order of the intervals:
  \<open>1, 2, 3, 5, 10\<close> for the split \<^verbatim>\<open>'train'\<close>, the single interval \<open>5\<close> for every
  other split. The intervals are the inner loop: the tracklets of one physical track
  come before those of the next.
\<close>

theorem exhaustive_mode_intervals:
  "subsample_track (PyStr ''all'') ''train'' track
     = Inr (concat (map (\<lambda>k. subsample_interval k track) [1, 2, 3, 5, 10]))
   \<and> (\<forall>k \<in> set [1, 2, 3, 5, 10].
         subsample_track (PyInt k) ''train'' track = Inr (subsample_interval k track))
   \<and> (stype \<noteq> ''train'' \<longrightarrow>
         subsample_track (PyStr ''all'') stype track = Inr (subsample_interval 5 track)
       \<and> subsample_track (PyInt 5) stype track = Inr (subsample_interval 5 track))
   \<and> track_loop srt (PyStr ''all'') stype data tids acc =
       Inr (acc @ concat (map (\<lambda>tid. concat (map (\<lambda>k. subsample_interval k (srt (filter (\<lambda>a. track_id a = tid) data)))
                                  (if stype = ''train'' then [1, 2, 3, 5, 10] else [5]))) tids))"
  using track_loop_all[of srt stype data tids acc] by (simp add: subsample_track_def)

theorem exhaustive_mode_intervals_witness:
  "''val'' \<noteq> ''train''
   \<and> subsample_track (PyStr ''all'') ''val'' [10, 11, 12, 13, 14, 15, 16 :: nat]
       = Inr [[10, 15], [11, 16], [12], [13], [14]]
   \<and> subsample_track (PyStr ''all'') ''train'' [10, 11, 12 :: nat]
       = Inr [[10, 11, 12], [10, 12], [11], [10], [11], [12], [10], [11], [12], [10], [11], [12]]"
proof -
  have ev5: "subsample_interval 5 [10, 11, 12, 13, 14, 15, 16 :: nat] = [[10, 15], [11, 16], [12], [13], [14]]"
    by (simp add: subsample_interval_def py_slice_step_def upt_conv_Cons)
  have ev: "concat (map (\<lambda>k. subsample_interval k [10, 11, 12 :: nat]) [1, 2, 3, 5, 10])
      = [[10, 11, 12], [10, 12], [11], [10], [11], [12], [10], [11], [12], [10], [11], [12]]"
    by (simp add: subsample_interval_def py_slice_step_def upt_conv_Cons)
  show ?thesis
    using ev5 ev
      exhaustive_mode_intervals[where track = "[10, 11, 12, 13, 14, 15, 16 :: nat]"
        and stype = "''val''" and srt = id and data = "[]" and tids = "[]" and acc = "[]"]
      exhaustive_mode_intervals[where track = "[10, 11, 12 :: nat]"
        and stype = "''val''" and srt = id and data = "[]" and tids = "[]" and acc = "[]"]
    by simp
qed

section \<open>The index: boundaries and binary search\<close>

lemma bisect_loop_spec:
  "sorted a \<Longrightarrow> lo \<le> hi \<Longrightarrow> hi \<le> length a \<Longrightarrow>
   (\<forall>i<lo. a ! i \<le> x) \<Longrightarrow> (\<forall>i. hi \<le> i \<and> i < length a \<longrightarrow> x < a ! i) \<Longrightarrow>
   lo \<le> bisect_loop a x lo hi \<and> bisect_loop a x lo hi \<le> hi \<and>
   (\<forall>i<bisect_loop a x lo hi. a ! i \<le> x) \<and>
   (\<forall>i. bisect_loop a x lo hi \<le> i \<and> i < length a \<longrightarrow> x < a ! i)"
proof (induction a x lo hi rule: bisect_loop.induct)
  case (1 a x lo hi)
  show ?case
  proof (cases "lo < hi")
    case False
    then have "bisect_loop a x lo hi = lo" by (subst bisect_loop.simps) simp
    moreover have "lo = hi" using False "1.prems"(2) by simp
    ultimately show ?thesis using "1.prems" by simp
  next
    case True
    define mid where "mid = (lo + hi) div 2"
    have mid: "lo \<le> mid" "mid < hi" using True by (simp_all add: mid_def)
    show ?thesis
    proof (cases "x < a ! mid")
      case lt: True
      have up: "\<forall>i. mid \<le> i \<and> i < length a \<longrightarrow> x < a ! i"
      proof (intro allI impI)
        fix i assume "mid \<le> i \<and> i < length a"
        then have "a ! mid \<le> a ! i" using "1.prems"(1) by (simp add: sorted_nth_mono)
        then show "x < a ! i" using lt by simp
      qed
      have eq: "bisect_loop a x lo hi = bisect_loop a x lo mid"
        using True lt by (subst bisect_loop.simps) (simp add: mid_def Let_def)
      have "lo \<le> bisect_loop a x lo mid \<and> bisect_loop a x lo mid \<le> mid \<and>
          (\<forall>i<bisect_loop a x lo mid. a ! i \<le> x) \<and>
          (\<forall>i. bisect_loop a x lo mid \<le> i \<and> i < length a \<longrightarrow> x < a ! i)"
        using "1.IH"(1)[OF True mid_def lt "1.prems"(1) mid(1) _ "1.prems"(4) up] mid "1.prems"(3)
        by simp
      then show ?thesis using eq mid by simp
    next
      case ge: False
      have low: "\<forall>i<mid + 1. a ! i \<le> x"
      proof (intro allI impI)
        fix i assume "i < mid + 1"
        then have "a ! i \<le> a ! mid" using "1.prems"(1,3) mid by (simp add: sorted_nth_mono)
        then show "a ! i \<le> x" using ge by simp
      qed
      have eq: "bisect_loop a x lo hi = bisect_loop a x (mid + 1) hi"
        using True ge by (subst bisect_loop.simps) (simp add: mid_def Let_def)
      have "mid + 1 \<le> bisect_loop a x (mid + 1) hi \<and> bisect_loop a x (mid + 1) hi \<le> hi \<and>
          (\<forall>i<bisect_loop a x (mid + 1) hi. a ! i \<le> x) \<and>
          (\<forall>i. bisect_loop a x (mid + 1) hi \<le> i \<and> i < length a \<longrightarrow> x < a ! i)"
        using "1.IH"(2)[OF True mid_def ge "1.prems"(1) _ "1.prems"(3) low "1.prems"(5)] mid
        by simp
      then show ?thesis using eq mid by simp
    qed
  qed
qed

lemma bisect_right_spec:
  assumes "sorted a"
  shows "bisect_right a x \<le> length a"
    and "\<forall>i<bisect_right a x. a ! i \<le> x"
    and "\<forall>i. bisect_right a x \<le> i \<and> i < length a \<longrightarrow> x < a ! i"
  using bisect_loop_spec[OF assms, of 0 "length a" x] by (simp_all add: bisect_right_def)

lemma boundary_loop_inv:
  "boundary_loop ns l st ed = Inr (st', ed') \<Longrightarrow>
   \<exists>s2 e2. st' = st @ s2 \<and> ed' = ed @ e2 \<and> length s2 = length ns \<and> length e2 = length ns \<and>
     (\<forall>i<length ns. s2 ! i = (if i = 0 then l else e2 ! (i - 1)) \<and>
                     e2 ! i = s2 ! i + int (ns ! i) \<and> 0 < ns ! i)"
proof (induction ns arbitrary: l st ed)
  case Nil
  then show ?case by simp
next
  case (Cons n ns)
  from Cons.prems have pos: "0 < n"
    and rec: "boundary_loop ns (l + int n) (st @ [l]) (ed @ [l + int n]) = Inr (st', ed')"
    by (simp_all split: if_splits)
  from Cons.IH[OF rec] obtain s2 e2 where
    h: "st' = (st @ [l]) @ s2" "ed' = (ed @ [l + int n]) @ e2"
       "length s2 = length ns" "length e2 = length ns"
       "\<forall>i<length ns. s2 ! i = (if i = 0 then l + int n else e2 ! (i - 1)) \<and>
                     e2 ! i = s2 ! i + int (ns ! i) \<and> 0 < ns ! i"
    by blast
  have "\<forall>i<length (n # ns). (l # s2) ! i = (if i = 0 then l else ((l + int n) # e2) ! (i - 1)) \<and>
          ((l + int n) # e2) ! i = (l # s2) ! i + int ((n # ns) ! i) \<and> 0 < (n # ns) ! i"
  proof (intro allI impI)
    fix i assume i: "i < length (n # ns)"
    show "(l # s2) ! i = (if i = 0 then l else ((l + int n) # e2) ! (i - 1)) \<and>
          ((l + int n) # e2) ! i = (l # s2) ! i + int ((n # ns) ! i) \<and> 0 < (n # ns) ! i"
    proof (cases i)
      case 0
      then show ?thesis using pos by simp
    next
      case (Suc j)
      then have "j < length ns" using i by simp
      with h(5) have "s2 ! j = (if j = 0 then l + int n else e2 ! (j - 1)) \<and>
                     e2 ! j = s2 ! j + int (ns ! j) \<and> 0 < ns ! j" by blast
      then show ?thesis using Suc by (cases j) simp_all
    qed
  qed
  then show ?case using h by (intro exI[of _ "l # s2"] exI[of _ "(l + int n) # e2"]) simp
qed


lemma boundary_loop_index:
  assumes "boundary_loop lens 0 [] [] = Inr (st, ed)"
  shows "length st = length lens" and "length ed = length lens"
    and "\<forall>i<length lens. st ! i = (if i = 0 then 0 else ed ! (i - 1)) \<and>
                          ed ! i = st ! i + int (lens ! i) \<and> 0 < lens ! i"
  using boundary_loop_inv[OF assms] by auto

lemma boundary_ed_sum:
  assumes "boundary_loop lens 0 [] [] = Inr (st, ed)"
  shows "i < length lens \<Longrightarrow> ed ! i = int (sum_list (take (Suc i) lens))"
proof (induction i)
  case 0
  then show ?case using boundary_loop_index(3)[OF assms] by (cases lens) auto
next
  case (Suc i)
  then have "ed ! Suc i = ed ! i + int (lens ! Suc i)"
    using boundary_loop_index(3)[OF assms] by auto
  then show ?case using Suc by (simp add: take_Suc_conv_app_nth)
qed

lemma boundary_ed_step:
  assumes "boundary_loop lens 0 [] [] = Inr (st, ed)" and "Suc i < length lens"
  shows "ed ! i < ed ! Suc i"
  using boundary_loop_index(3)[OF assms(1)] assms(2) by auto

lemma boundary_ed_strict:
  assumes "boundary_loop lens 0 [] [] = Inr (st, ed)"
  shows "j < length lens \<Longrightarrow> i < j \<Longrightarrow> ed ! i < ed ! j"
proof (induction j)
  case 0
  then show ?case by simp
next
  case (Suc j)
  have step: "ed ! j < ed ! Suc j" using boundary_ed_step[OF assms] Suc.prems(1) by simp
  show ?case
  proof (cases "i = j")
    case True
    then show ?thesis using step by simp
  next
    case False
    then have "ed ! i < ed ! j" using Suc by simp
    then show ?thesis using step by simp
  qed
qed

lemma boundary_ed_sorted:
  assumes "boundary_loop lens 0 [] [] = Inr (st, ed)"
  shows "sorted ed"
proof -
  have "\<forall>i j. i \<le> j \<longrightarrow> j < length ed \<longrightarrow> ed ! i \<le> ed ! j"
  proof (intro allI impI)
    fix i j assume "i \<le> j" "j < length ed"
    then show "ed ! i \<le> ed ! j"
      using boundary_ed_strict[OF assms, of j i] boundary_loop_index(2)[OF assms]
      by (cases "i = j") auto
  qed
  then show ?thesis by (simp add: sorted_iff_nth_mono)
qed

lemma boundary_st_nonneg:
  assumes "boundary_loop lens 0 [] [] = Inr (st, ed)" and "i < length lens"
  shows "0 \<le> st ! i" and "st ! i < ed ! i"
proof -
  have e: "ed ! j = int (sum_list (take (Suc j) lens))" if "j < length lens" for j
    using boundary_ed_sum[OF assms(1) that] .
  have s: "st ! i = (if i = 0 then 0 else ed ! (i - 1))" and d: "ed ! i = st ! i + int (lens ! i)"
    and p: "0 < lens ! i"
    using boundary_loop_index(3)[OF assms(1)] assms(2) by auto
  show "0 \<le> st ! i" using s e[of "i - 1"] assms(2) by (cases i) auto
  show "st ! i < ed ! i" using d p by simp
qed

text \<open>The entry a global index falls into is the one the binary search returns.\<close>

lemma bisect_right_boundary:
  assumes b: "boundary_loop lens 0 [] [] = Inr (st, ed)"
    and t: "t < length lens" and lo: "st ! t \<le> g" and hi: "g < ed ! t"
  shows "bisect_right ed g = t"
proof -
  let ?r = "bisect_right ed g"
  have srt: "sorted ed" using boundary_ed_sorted[OF b] .
  have len: "length ed = length lens" using boundary_loop_index(2)[OF b] .
  have r1: "\<forall>i<?r. ed ! i \<le> g" using bisect_right_spec(2)[OF srt] .
  have r2: "\<forall>i. ?r \<le> i \<and> i < length ed \<longrightarrow> g < ed ! i" using bisect_right_spec(3)[OF srt] .
  have "\<not> t < ?r" using r1 hi by auto
  moreover have "\<not> ?r < t"
  proof
    assume lt: "?r < t"
    then have "g < ed ! ?r" using r2 t len by simp
    moreover have "ed ! ?r \<le> ed ! (t - 1)"
      using lt t len srt by (simp add: sorted_iff_nth_mono)
    moreover have "st ! t = ed ! (t - 1)"
      using boundary_loop_index(3)[OF b] t lt by auto
    ultimately show False using lo by simp
  qed
  ultimately show ?thesis by simp
qed

lemma bisect_right_in_range:
  assumes b: "boundary_loop lens 0 [] [] = Inr (st, ed)"
    and ne: "lens \<noteq> []" and g0: "0 \<le> g" and g1: "g < ed ! (length lens - 1)"
  shows "bisect_right ed g < length lens"
    and "st ! bisect_right ed g \<le> g" and "g < ed ! bisect_right ed g"
proof -
  let ?r = "bisect_right ed g"
  have srt: "sorted ed" using boundary_ed_sorted[OF b] .
  have len: "length ed = length lens" using boundary_loop_index(2)[OF b] .
  have r0: "?r \<le> length ed" using bisect_right_spec(1)[OF srt] .
  have r1: "\<forall>i<?r. ed ! i \<le> g" using bisect_right_spec(2)[OF srt] .
  have r2: "\<forall>i. ?r \<le> i \<and> i < length ed \<longrightarrow> g < ed ! i" using bisect_right_spec(3)[OF srt] .
  have "?r \<noteq> length lens"
  proof
    assume "?r = length lens"
    then have "ed ! (length lens - 1) \<le> g" using r1 ne by simp
    then show False using g1 by simp
  qed
  then show lt: "?r < length lens" using r0 len by simp
  then show "g < ed ! ?r" using r2 len by simp
  have "st ! ?r = (if ?r = 0 then 0 else ed ! (?r - 1))"
    using boundary_loop_index(3)[OF b] lt by blast
  then show "st ! ?r \<le> g" using g0 r1 by (cases "?r") auto
qed

subsection \<open>Evaluating the small dataset\<close>

lemma demo_annos:
  "build_tracklet_annotations (sort_values demo_env) (label_files demo_env) ''Car'' (PyInt 2) ''train'' [0]
   = Inr [[demo_anno 0 0 0, demo_anno 0 2 0], [demo_anno 0 1 0], [demo_anno 0 0 1]]"
  by (simp add: build_tracklet_annotations_def demo_env_def filter_category_def demo_row_def
        demo_anno_def insert_scene_def label_row.extend_def subsample_track_def
        subsample_interval_def py_slice_step_def upt_conv_Cons Let_def)

lemma demo_annos_test:
  "build_tracklet_annotations (sort_values demo_env) (label_files demo_env) ''Car'' (PyInt 2) ''test'' [19]
   = Inr []"
  by (simp add: build_tracklet_annotations_def demo_env_def filter_category_def Let_def)

lemma demo_init_train:
  "init_dataset demo_env demo_store ''train'' demo_cfg =
     Inr (\<lparr>split_type = ''train'', cfg = demo_cfg, preload_interval = PyInt 2,
           preload_offset = 1, cache = False, calibration_info = Map.empty,
           tracklet_annotations = [[demo_anno 0 0 0, demo_anno 0 2 0], [demo_anno 0 1 0], [demo_anno 0 0 1]],
           tracklet_num_frames = [2, 1, 1],
           tracklet_st_frame_id = [0, 2, 3], tracklet_ed_frame_id = [2, 3, 4],
           tracklets = None\<rparr>, demo_store)"
proof -
  have c: "category_name demo_cfg = ''Car''" "debug demo_cfg" "cfg_preload_interval demo_cfg = Some (PyInt 2)"
    "cfg_preload_offset demo_cfg = 1" "\<not> cache_train demo_cfg"
    by (simp_all add: demo_cfg_def)
  show ?thesis
    by (simp add: init_dataset_def init_index_def init_cache_def c split_type_to_scene_ids_def
          demo_annos Let_def)
qed

lemma demo_init_test:
  "init_dataset demo_env demo_store ''test'' demo_cfg =
     Inr (\<lparr>split_type = ''test'', cfg = demo_cfg, preload_interval = PyInt 2,
           preload_offset = - 1, cache = False, calibration_info = Map.empty,
           tracklet_annotations = [],
           tracklet_num_frames = [],
           tracklet_st_frame_id = [], tracklet_ed_frame_id = [],
           tracklets = None\<rparr>, demo_store)"
proof -
  have c: "category_name demo_cfg = ''Car''" "debug demo_cfg" "cfg_preload_interval demo_cfg = Some (PyInt 2)"
    "cfg_preload_offset demo_cfg = 1" "\<not> cache_eval demo_cfg"
    by (simp_all add: demo_cfg_def)
  show ?thesis
    by (simp add: init_dataset_def init_index_def init_cache_def c split_type_to_scene_ids_def
          demo_annos_test Let_def)
qed


subsection \<open>Resolving a global index\<close>

lemma init_index_fields:
  assumes "init_index env stype c = Inr self"
  shows "tracklet_num_frames self = map length (tracklet_annotations self)"
    and "boundary_loop (map length (tracklet_annotations self)) 0 [] []
           = Inr (tracklet_st_frame_id self, tracklet_ed_frame_id self)"
    and "split_type self = stype" and "cfg self = c"
    and "preload_offset self = (if stype = ''train'' then cfg_preload_offset c else - 1)"
    and "cache self = (if stype = ''train'' then cache_train c else cache_eval c)"
    and "calibration_info self = Map.empty" and "tracklets self = None"
  using assms
  by (auto simp: init_index_def Let_def split: if_splits sum.splits option.splits prod.splits)

lemma init_cache_fields:
  assumes "init_cache env store self = Inr (ds, store')"
  shows "tracklet_annotations ds = tracklet_annotations self"
    and "tracklet_num_frames ds = tracklet_num_frames self"
    and "tracklet_st_frame_id ds = tracklet_st_frame_id self"
    and "tracklet_ed_frame_id ds = tracklet_ed_frame_id self"
    and "preload_offset ds = preload_offset self" and "cfg ds = cfg self"
    and "split_type ds = split_type self" and "cache ds = cache self"
    and "preload_interval ds = preload_interval self"
  using assms
  by (auto simp: init_cache_def split: if_splits sum.splits option.splits prod.splits)

lemma init_dataset_stages:
  assumes "init_dataset env store stype c = Inr (ds, store')"
  obtains self where "init_index env stype c = Inr self"
    and "init_cache env store self = Inr (ds, store')"
  using assms by (auto simp: init_dataset_def split: sum.splits)

lemma init_dataset_index:
  assumes "init_dataset env store stype c = Inr (ds, store')"
  shows "tracklet_num_frames ds = map length (tracklet_annotations ds)"
    and "boundary_loop (map length (tracklet_annotations ds)) 0 [] []
           = Inr (tracklet_st_frame_id ds, tracklet_ed_frame_id ds)"
proof -
  from assms obtain self where i: "init_index env stype c = Inr self"
    and k: "init_cache env store self = Inr (ds, store')"
    by (rule init_dataset_stages)
  show "tracklet_num_frames ds = map length (tracklet_annotations ds)"
    using init_index_fields(1)[OF i] init_cache_fields(1,2)[OF k] by simp
  show "boundary_loop (map length (tracklet_annotations ds)) 0 [] []
           = Inr (tracklet_st_frame_id ds, tracklet_ed_frame_id ds)"
    using init_index_fields(2)[OF i] init_cache_fields(1,3,4)[OF k] by simp
qed

lemma py_getitem_nat: "i < length xs \<Longrightarrow> py_getitem xs (int i) = Inr (xs ! i)"
  by (simp add: py_getitem_def)

lemma py_getitem_last: "xs \<noteq> [] \<Longrightarrow> py_getitem xs (- 1) = Inr (xs ! (length xs - 1))"
  by (cases xs) (auto simp: py_getitem_def)

lemma py_getitem_empty: "py_getitem [] i = Inl IndexError"
  by (simp add: py_getitem_def)

lemma get_tracklet_frame_id_value:
  assumes b: "boundary_loop (map length (tracklet_annotations ds)) 0 [] []
           = Inr (tracklet_st_frame_id ds, tracklet_ed_frame_id ds)"
    and t: "t < length (tracklet_annotations ds)"
    and lo: "tracklet_st_frame_id ds ! t \<le> g" and hi: "g < tracklet_ed_frame_id ds ! t"
  shows "get_tracklet_frame_id ds g = Inr (int t, g - tracklet_st_frame_id ds ! t)"
proof -
  have r: "bisect_right (tracklet_ed_frame_id ds) g = t"
    using bisect_right_boundary[OF b _ lo hi] t by simp
  have l1: "length (tracklet_st_frame_id ds) = length (tracklet_annotations ds)"
    and l2: "length (tracklet_ed_frame_id ds) = length (tracklet_annotations ds)"
    using boundary_loop_index(1,2)[OF b] by simp_all
  show ?thesis
    using r t lo hi l1 l2 by (simp add: get_tracklet_frame_id_def py_getitem_nat)
qed


lemma num_frames_last:
  assumes "num_frames ds = Inr tot_frames"
  shows "tracklet_ed_frame_id ds \<noteq> []"
    and "tot_frames = tracklet_ed_frame_id ds ! (length (tracklet_ed_frame_id ds) - 1)"
proof -
  show ne: "tracklet_ed_frame_id ds \<noteq> []"
    using assms by (auto simp: num_frames_def py_getitem_empty)
  show "tot_frames = tracklet_ed_frame_id ds ! (length (tracklet_ed_frame_id ds) - 1)"
    using assms py_getitem_last[OF ne] by (simp add: num_frames_def)
qed

text \<open>
  Claim C1. For a constructed dataset and a global index \<open>g\<close> with
  \<open>0 \<le> g < num_frames()\<close>, \<^verbatim>\<open>get_tracklet_frame_id(g)\<close> returns \<open>(t, f)\<close> where
  \<open>t\<close> is the smallest index with \<open>g < ed[t]\<close> and \<open>f = g - st[t]\<close>; then
  \<open>st[t] \<le> g < ed[t]\<close>. The map from \<open>g\<close> to \<open>(t, f)\<close> is a bijection from
  \<open>{0, \<dots>, num_frames() - 1}\<close> onto the pairs \<open>(t, f)\<close> with \<open>t\<close> a tracklet id and
  \<open>0 \<le> f < num_tracklet_frames(t)\<close>.
\<close>

theorem resolve_global_index:
  assumes c: "init_dataset env store stype c = Inr (ds, store')"
    and tot_frames: "num_frames ds = Inr tot_frames"
  shows "(\<forall>g. 0 \<le> g \<and> g < tot_frames \<longrightarrow>
           (\<exists>t. get_tracklet_frame_id ds g = Inr (int t, g - tracklet_st_frame_id ds ! t)
              \<and> t < length (tracklet_annotations ds)
              \<and> g < tracklet_ed_frame_id ds ! t
              \<and> (\<forall>i<t. \<not> g < tracklet_ed_frame_id ds ! i)
              \<and> tracklet_st_frame_id ds ! t \<le> g))
       \<and> bij_betw (\<lambda>g. projr (get_tracklet_frame_id ds g)) {0 ..< tot_frames}
           {(t, f). 0 \<le> t \<and> t < num_tracklets ds \<and> 0 \<le> f
                  \<and> (\<exists>n. num_tracklet_frames ds t = Inr n \<and> f < int n)}"
proof -
  let ?st = "tracklet_st_frame_id ds" and ?ed = "tracklet_ed_frame_id ds"
  let ?lens = "map length (tracklet_annotations ds)"
  let ?n = "length (tracklet_annotations ds)"
  have b: "boundary_loop ?lens 0 [] [] = Inr (?st, ?ed)" using init_dataset_index(2)[OF c] .
  have nf: "tracklet_num_frames ds = ?lens" using init_dataset_index(1)[OF c] .
  have l2: "length ?ed = ?n" using boundary_loop_index(2)[OF b] by simp
  have ne: "?lens \<noteq> []" using num_frames_last(1)[OF tot_frames] l2 by auto
  have tot: "tot_frames = ?ed ! (length ?lens - 1)" using num_frames_last(2)[OF tot_frames] l2 by simp
  have srt: "sorted ?ed" using boundary_ed_sorted[OF b] .
  have ed_st: "?ed ! t = ?st ! t + int (length (tracklet_annotations ds ! t))" if "t < ?n" for t
    using boundary_loop_index(3)[OF b] that by auto
  have resolve: "\<exists>t. get_tracklet_frame_id ds g = Inr (int t, g - ?st ! t)
              \<and> t < ?n \<and> g < ?ed ! t \<and> (\<forall>i<t. \<not> g < ?ed ! i) \<and> ?st ! t \<le> g"
    if g: "0 \<le> g" "g < tot_frames" for g
  proof -
    let ?t = "bisect_right ?ed g"
    have r: "?t < ?n" "?st ! ?t \<le> g" "g < ?ed ! ?t"
      using bisect_right_in_range[OF b ne g(1)] g(2) tot by simp_all
    have v: "get_tracklet_frame_id ds g = Inr (int ?t, g - ?st ! ?t)"
      using get_tracklet_frame_id_value[OF b r] .
    have "\<forall>i<?t. \<not> g < ?ed ! i" using bisect_right_spec(2)[OF srt, of g] by auto
    then show ?thesis using r v by blast
  qed
  let ?f = "\<lambda>g. projr (get_tracklet_frame_id ds g)"
  let ?A = "{0 ..< tot_frames}"
  let ?B = "{(t, f). 0 \<le> t \<and> t < num_tracklets ds \<and> 0 \<le> f
                  \<and> (\<exists>n. num_tracklet_frames ds t = Inr n \<and> f < int n)}"
  have frames: "num_tracklet_frames ds (int t) = Inr (length (tracklet_annotations ds ! t))"
    if "t < ?n" for t
    using that nf by (simp add: num_tracklet_frames_def py_getitem_nat)
  have inj: "inj_on ?f ?A"
  proof (rule inj_onI)
    fix g h assume gh: "g \<in> ?A" "h \<in> ?A" "?f g = ?f h"
    from gh(1) resolve[of g] obtain t where t: "get_tracklet_frame_id ds g = Inr (int t, g - ?st ! t)"
      by auto
    from gh(2) resolve[of h] obtain u where u: "get_tracklet_frame_id ds h = Inr (int u, h - ?st ! u)"
      by auto
    from gh(3) have e: "(int t, g - ?st ! t) = (int u, h - ?st ! u)"
      unfolding t u by (simp only: sum.sel)
    then have tu: "t = u" by (simp only: prod.inject of_nat_eq_iff)
    from e have "g - ?st ! t = h - ?st ! u" by (simp only: prod.inject)
    then show "g = h" unfolding tu by simp
  qed
  have img: "?f ` ?A = ?B"
  proof (intro set_eqI iffI)
    fix x assume "x \<in> ?f ` ?A"
    then obtain g where g: "0 \<le> g" "g < tot_frames" "x = ?f g" by auto
    from resolve[OF g(1,2)] obtain t where
      t: "get_tracklet_frame_id ds g = Inr (int t, g - ?st ! t)" "t < ?n" "g < ?ed ! t" "?st ! t \<le> g"
      by blast
    have "g - ?st ! t < int (length (tracklet_annotations ds ! t))"
      using ed_st[OF t(2)] t(3) by simp
    then show "x \<in> ?B" using g(3) t frames[OF t(2)] by (simp add: num_tracklets_def)
  next
    fix x assume "x \<in> ?B"
    then obtain t f n where x: "x = (t, f)" "0 \<le> t" "t < num_tracklets ds" "0 \<le> f"
      "num_tracklet_frames ds t = Inr n" "f < int n"
      by auto
    let ?t = "nat t"
    have t: "?t < ?n" "int ?t = t" using x(2,3) by (simp_all add: num_tracklets_def)
    have n: "n = length (tracklet_annotations ds ! ?t)" using frames[OF t(1)] x(5) t(2) by simp
    let ?g = "?st ! ?t + f"
    have lo: "?st ! ?t \<le> ?g" using x(4) by simp
    have hi: "?g < ?ed ! ?t" using ed_st[OF t(1)] x(6) n by simp
    have v: "get_tracklet_frame_id ds ?g = Inr (int ?t, ?g - ?st ! ?t)"
      using get_tracklet_frame_id_value[OF b t(1) lo hi] .
    have g0: "0 \<le> ?g" using boundary_st_nonneg(1)[OF b, of ?t] t(1) x(4) by simp
    have "?ed ! ?t \<le> ?ed ! (?n - 1)"
      using srt t(1) l2 by (simp add: sorted_iff_nth_mono)
    then have g1: "?g < tot_frames" using hi tot by simp
    have "?f ?g = x" using v x(1) t(2) by simp
    then show "x \<in> ?f ` ?A" using g0 g1 by (intro image_eqI[of _ _ ?g]) simp_all
  qed
  show ?thesis using resolve inj img unfolding bij_betw_def by blast
qed

theorem resolve_global_index_witness:
  "\<exists>ds s. init_dataset demo_env demo_store ''train'' demo_cfg = Inr (ds, s)
      \<and> num_frames ds = Inr 4
      \<and> get_tracklet_frame_id ds 2 = Inr (1, 0)
      \<and> get_tracklet_frame_id ds 1 = Inr (0, 1)
      \<and> bij_betw (\<lambda>g. projr (get_tracklet_frame_id ds g)) {0 ..< 4}
           {(t, f). 0 \<le> t \<and> t < num_tracklets ds \<and> 0 \<le> f
                  \<and> (\<exists>n. num_tracklet_frames ds t = Inr n \<and> f < int n)}"
proof -
  obtain ds s where c: "init_dataset demo_env demo_store ''train'' demo_cfg = Inr (ds, s)"
    and ed: "tracklet_ed_frame_id ds = [2, 3, 4]" and st: "tracklet_st_frame_id ds = [0, 2, 3]"
    using demo_init_train by simp
  have n: "num_frames ds = Inr 4" by (simp add: num_frames_def ed py_getitem_def)
  have g2: "get_tracklet_frame_id ds 2 = Inr (1, 0)"
    by (simp add: get_tracklet_frame_id_def bisect_right_def bisect_loop.simps ed st py_getitem_def)
  have g1: "get_tracklet_frame_id ds 1 = Inr (0, 1)"
    by (simp add: get_tracklet_frame_id_def bisect_right_def bisect_loop.simps ed st py_getitem_def)
  show ?thesis using c n g2 g1 resolve_global_index[OF c n] by blast
qed

subsection \<open>The boundary invariant\<close>

text \<open>
  Claim C2, as amended. For a constructed dataset the boundary sequences satisfy
  \<open>st[0] = 0\<close>, \<open>st[i] = ed[i - 1]\<close> for \<open>i \<ge> 1\<close> and \<open>ed[i] - st[i]\<close> is the length of
  tracklet \<open>i\<close>, for every tracklet \<open>i\<close>. When the dataset has at least one tracklet,
  \<^verbatim>\<open>num_frames()\<close> returns \<open>ed[last]\<close>, which is the sum of
  \<^verbatim>\<open>num_tracklet_frames(i)\<close> over all tracklets.
\<close>

theorem index_boundaries_invariant:
  assumes c: "init_dataset env store stype c = Inr (ds, store')"
  shows "length (tracklet_st_frame_id ds) = length (tracklet_annotations ds)
       \<and> length (tracklet_ed_frame_id ds) = length (tracklet_annotations ds)
       \<and> length (tracklet_num_frames ds) = nat (num_tracklets ds)
       \<and> (\<forall>i < length (tracklet_annotations ds).
             tracklet_st_frame_id ds ! i = (if i = 0 then 0 else tracklet_ed_frame_id ds ! (i - 1))
           \<and> tracklet_ed_frame_id ds ! i - tracklet_st_frame_id ds ! i
               = int (length (tracklet_annotations ds ! i))
           \<and> num_tracklet_frames ds (int i) = Inr (length (tracklet_annotations ds ! i)))
       \<and> (tracklet_annotations ds \<noteq> [] \<longrightarrow>
             num_frames ds = Inr (tracklet_ed_frame_id ds ! (length (tracklet_annotations ds) - 1))
           \<and> num_frames ds = Inr (int (sum_list (tracklet_num_frames ds))))"
proof -
  let ?st = "tracklet_st_frame_id ds" and ?ed = "tracklet_ed_frame_id ds"
  let ?lens = "map length (tracklet_annotations ds)"
  let ?n = "length (tracklet_annotations ds)"
  have b: "boundary_loop ?lens 0 [] [] = Inr (?st, ?ed)" using init_dataset_index(2)[OF c] .
  have nf: "tracklet_num_frames ds = ?lens" using init_dataset_index(1)[OF c] .
  have l1: "length ?st = ?n" and l2: "length ?ed = ?n"
    using boundary_loop_index(1,2)[OF b] by simp_all
  have l3: "length (tracklet_num_frames ds) = nat (num_tracklets ds)"
    by (simp add: nf num_tracklets_def)
  have per: "\<forall>i < ?n. ?st ! i = (if i = 0 then 0 else ?ed ! (i - 1))
           \<and> ?ed ! i - ?st ! i = int (length (tracklet_annotations ds ! i))
           \<and> num_tracklet_frames ds (int i) = Inr (length (tracklet_annotations ds ! i))"
  proof (intro allI impI)
    fix i assume i: "i < ?n"
    have "?st ! i = (if i = 0 then 0 else ?ed ! (i - 1))"
      and "?ed ! i = ?st ! i + int (?lens ! i)"
      using boundary_loop_index(3)[OF b] i by auto
    moreover have "num_tracklet_frames ds (int i) = Inr (length (tracklet_annotations ds ! i))"
      using i nf by (simp add: num_tracklet_frames_def py_getitem_nat)
    ultimately show "?st ! i = (if i = 0 then 0 else ?ed ! (i - 1))
           \<and> ?ed ! i - ?st ! i = int (length (tracklet_annotations ds ! i))
           \<and> num_tracklet_frames ds (int i) = Inr (length (tracklet_annotations ds ! i))"
      using i by simp
  qed
  have tot: "num_frames ds = Inr (?ed ! (?n - 1)) \<and>
             num_frames ds = Inr (int (sum_list (tracklet_num_frames ds)))"
    if ne: "tracklet_annotations ds \<noteq> []"
  proof -
    have "?ed \<noteq> []" using ne l2 by auto
    then have a: "num_frames ds = Inr (?ed ! (?n - 1))"
      using py_getitem_last[of ?ed] l2 by (simp add: num_frames_def)
    have "?n - 1 < length ?lens" using ne by simp
    then have "?ed ! (?n - 1) = int (sum_list (take (Suc (?n - 1)) ?lens))"
      using boundary_ed_sum[OF b] by blast
    also have "Suc (?n - 1) = ?n" using ne by simp
    finally have "?ed ! (?n - 1) = int (sum_list (tracklet_num_frames ds))" using nf by simp
    then show ?thesis using a by simp
  qed
  show ?thesis using l1 l2 l3 per tot by blast
qed

theorem index_boundaries_invariant_witness:
  "\<exists>ds s. init_dataset demo_env demo_store ''train'' demo_cfg = Inr (ds, s)
      \<and> tracklet_annotations ds \<noteq> []
      \<and> tracklet_st_frame_id ds = [0, 2, 3]
      \<and> tracklet_ed_frame_id ds = [2, 3, 4]
      \<and> num_frames ds = Inr (int (sum_list (tracklet_num_frames ds)))
      \<and> num_frames ds = Inr 4"
proof -
  obtain ds s where c: "init_dataset demo_env demo_store ''train'' demo_cfg = Inr (ds, s)"
    and ed: "tracklet_ed_frame_id ds = [2, 3, 4]" and st: "tracklet_st_frame_id ds = [0, 2, 3]"
    and ta: "tracklet_annotations ds \<noteq> []" and nf: "tracklet_num_frames ds = [2, 1, 1]"
    using demo_init_train by simp
  have "num_frames ds = Inr (int (sum_list (tracklet_num_frames ds)))"
    using index_boundaries_invariant[OF c] ta by blast
  then show ?thesis using c ed st ta nf by simp
qed

text \<open>
  The claim as stated, for every constructed dataset, fails for a dataset without
  tracklets: the split \<^verbatim>\<open>'test'\<close> of the small dataset is constructed, its frame
  counts sum to \<open>0\<close>, and \<^verbatim>\<open>num_frames()\<close> raises \<^verbatim>\<open>IndexError\<close>, as does
  \<^verbatim>\<open>tracklet_st_frame_id[0]\<close>.
\<close>

theorem empty_dataset_total_frames_counterexample:
  "\<not> isl (init_dataset demo_env demo_store ''test'' demo_cfg)
   \<and> num_tracklets (fst (projr (init_dataset demo_env demo_store ''test'' demo_cfg))) = 0
   \<and> sum_list (tracklet_num_frames (fst (projr (init_dataset demo_env demo_store ''test'' demo_cfg)))) = 0
   \<and> num_frames (fst (projr (init_dataset demo_env demo_store ''test'' demo_cfg))) = Inl IndexError
   \<and> py_getitem (tracklet_st_frame_id (fst (projr (init_dataset demo_env demo_store ''test'' demo_cfg)))) 0
       = Inl IndexError"
  by (simp add: demo_init_test num_tracklets_def num_frames_def py_getitem_def)

section \<open>Building frames\<close>

subsection \<open>The calibration memo does not change the frames\<close>

lemma memo_ok_empty: "memo_ok env Map.empty"
  by (simp add: memo_ok_def)

lemma get_calib_memo:
  assumes "memo_ok env ci"
  shows "fst (get_calib env ci s) = read_calibration_file env s"
    and "memo_ok env (snd (get_calib env ci s))"
  using assms
  by (auto simp: get_calib_def memo_ok_def split: option.splits sum.splits)

lemma frame_prelude_memo:
  assumes "memo_ok env ci"
  shows "fst (frame_prelude env mode ci a) = fst (frame_prelude env mode Map.empty a)"
    and "memo_ok env (snd (frame_prelude env mode ci a))"
proof -
  obtain r ci' where g: "get_calib env ci (scene a) = (r, ci')" by (cases "get_calib env ci (scene a)")
  obtain r0 ci0 where g0: "get_calib env Map.empty (scene a) = (r0, ci0)"
    by (cases "get_calib env Map.empty (scene a)")
  have r: "r = read_calibration_file env (scene a)" "memo_ok env ci'"
    using get_calib_memo[OF assms, of "scene a"] g by simp_all
  have r0: "r0 = read_calibration_file env (scene a)"
    using get_calib_memo(1)[OF memo_ok_empty, of env "scene a"] g0 by simp
  show "fst (frame_prelude env mode ci a) = fst (frame_prelude env mode Map.empty a)"
    using r(1) r0 by (simp add: frame_prelude_def g g0 split: sum.splits)
  show "memo_ok env (snd (frame_prelude env mode ci a))"
    using r(2) by (simp add: frame_prelude_def g split: sum.splits)
qed

lemma build_frame_prelude:
  "build_frame env mode ci a =
     (case frame_prelude env mode ci a of
        (Inl e, ci') \<Rightarrow> (Inl e, ci')
      | (Inr (m, b), ci') \<Rightarrow>
          (Inr \<lparr>pcd = (case load_pcd env mode m (scene a) (frame a) of
                         Inl e \<Rightarrow> placeholder_pcd | Inr p \<Rightarrow> p),
                bbox = b, anno = a\<rparr>, ci'))"
  by (simp add: build_frame_def)

lemma build_frame_memo:
  assumes "memo_ok env ci"
  shows "fst (build_frame env mode ci a) = fst (build_frame env mode Map.empty a)"
    and "memo_ok env (snd (build_frame env mode ci a))"
    and "snd (build_frame env mode ci a) = snd (frame_prelude env mode ci a)"
proof -
  obtain r ci' where p: "frame_prelude env mode ci a = (r, ci')"
    by (cases "frame_prelude env mode ci a")
  obtain r0 ci0 where p0: "frame_prelude env mode Map.empty a = (r0, ci0)"
    by (cases "frame_prelude env mode Map.empty a")
  have "r = r0" "memo_ok env ci'" using frame_prelude_memo[OF assms, of mode a] p p0 by simp_all
  then show "fst (build_frame env mode ci a) = fst (build_frame env mode Map.empty a)"
    and "memo_ok env (snd (build_frame env mode ci a))"
    and "snd (build_frame env mode ci a) = snd (frame_prelude env mode ci a)"
    by (simp_all add: build_frame_def p p0 split: sum.splits prod.splits)
qed

subsection \<open>Construction does not depend on the point-cloud files\<close>

lemma get_calib_velodyne:
  "get_calib (env\<lparr>velodyne_files := v\<rparr>) ci s = get_calib env ci s"
  by (simp add: get_calib_def read_calibration_file_def split: option.splits sum.splits)

lemma build_bbox_velodyne:
  "build_bbox (env\<lparr>velodyne_files := v\<rparr>) mode m a = build_bbox env mode m a"
  by (simp add: build_bbox_def)

lemma frame_prelude_velodyne:
  "frame_prelude (env\<lparr>velodyne_files := v\<rparr>) mode ci a = frame_prelude env mode ci a"
  by (simp add: frame_prelude_def get_calib_velodyne build_bbox_velodyne
        split: option.splits sum.splits prod.splits)

lemma build_frame_velodyne:
  "map_prod (map_sum id (\<lambda>f. (bbox f, anno f))) id (build_frame (env\<lparr>velodyne_files := v\<rparr>) mode ci a)
   = map_prod (map_sum id (\<lambda>f. (bbox f, anno f))) id (build_frame env mode ci a)"
  by (simp add: build_frame_prelude frame_prelude_velodyne split: prod.splits sum.splits)

lemma frames_loop_velodyne:
  "map (\<lambda>f. (bbox f, anno f)) built' = map (\<lambda>f. (bbox f, anno f)) built \<Longrightarrow>
   map_prod (map_sum id (map (\<lambda>f. (bbox f, anno f)))) id
      (frames_loop (env\<lparr>velodyne_files := v\<rparr>) mode ci annos built')
   = map_prod (map_sum id (map (\<lambda>f. (bbox f, anno f)))) id
      (frames_loop env mode ci annos built)"
proof (induction annos arbitrary: ci built built')
  case Nil
  then show ?case by simp
next
  case (Cons a annos)
  obtain r' c' where b': "build_frame (env\<lparr>velodyne_files := v\<rparr>) mode ci a = (r', c')"
    by (cases "build_frame (env\<lparr>velodyne_files := v\<rparr>) mode ci a")
  obtain r c where b: "build_frame env mode ci a = (r, c)"
    by (cases "build_frame env mode ci a")
  have rel: "map_sum id (\<lambda>f. (bbox f, anno f)) r' = map_sum id (\<lambda>f. (bbox f, anno f)) r" "c' = c"
    using build_frame_velodyne[where env = env and v = v and mode = mode and ci = ci and a = a] b b' by simp_all
  show ?case
  proof (cases r)
    case (Inl e)
    then have "r' = Inl e" using rel(1) by (cases r') simp_all
    then show ?thesis using Inl b b' rel(2) by simp
  next
    case (Inr f)
    then obtain f' where f': "r' = Inr f'" "bbox f' = bbox f" "anno f' = anno f"
      using rel(1) by (cases r') simp_all
    have "map (\<lambda>f. (bbox f, anno f)) (built' @ [f']) = map (\<lambda>f. (bbox f, anno f)) (built @ [f])"
      using Cons.prems f' by simp
    from Cons.IH[OF this] show ?thesis using Inr f' b b' rel(2) by simp
  qed
qed

lemma materialize_tracklet_velodyne:
  "map_prod (map_sum id (\<lambda>t. ())) id (materialize_tracklet (env\<lparr>velodyne_files := v\<rparr>) c offset ci ta)
   = map_prod (map_sum id (\<lambda>t. ())) id (materialize_tracklet env c offset ci ta)"
proof -
  obtain r' c' where l': "frames_loop (env\<lparr>velodyne_files := v\<rparr>) (coordinate_mode c) ci ta [] = (r', c')"
    by (cases "frames_loop (env\<lparr>velodyne_files := v\<rparr>) (coordinate_mode c) ci ta []")
  obtain r c0 where l: "frames_loop env (coordinate_mode c) ci ta [] = (r, c0)"
    by (cases "frames_loop env (coordinate_mode c) ci ta []")
  have "map_sum id (map (\<lambda>f. (bbox f, anno f))) r' = map_sum id (map (\<lambda>f. (bbox f, anno f))) r" "c' = c0"
    using frames_loop_velodyne[where built = "[]" and built' = "[]" and env = env and v = v
        and mode = "coordinate_mode c" and ci = ci and annos = ta] l l' by simp_all
  then show ?thesis
    by (cases r; cases r') (simp_all add: materialize_tracklet_def l l' Let_def)
qed

lemma tracklets_loop_velodyne:
  "map_prod (map_sum id (\<lambda>t. ())) id (tracklets_loop (env\<lparr>velodyne_files := v\<rparr>) c offset ci tas acc')
   = map_prod (map_sum id (\<lambda>t. ())) id (tracklets_loop env c offset ci tas acc)"
proof (induction tas arbitrary: ci acc acc')
  case Nil
  then show ?case by simp
next
  case (Cons ta tas)
  obtain r' c' where m': "materialize_tracklet (env\<lparr>velodyne_files := v\<rparr>) c offset ci ta = (r', c')"
    by (cases "materialize_tracklet (env\<lparr>velodyne_files := v\<rparr>) c offset ci ta")
  obtain r c0 where m: "materialize_tracklet env c offset ci ta = (r, c0)"
    by (cases "materialize_tracklet env c offset ci ta")
  have rel: "map_sum id (\<lambda>t. ()) r' = map_sum id (\<lambda>t. ()) r" "c' = c0"
    using materialize_tracklet_velodyne[where env = env and v = v and c = c and offset = offset
        and ci = ci and ta = ta] m m' by simp_all
  show ?case
  proof (cases r)
    case (Inl e)
    then have "r' = Inl e" using rel(1) by (cases r') simp_all
    then show ?thesis using Inl m m' rel(2) by simp
  next
    case (Inr t)
    then obtain t' where "r' = Inr t'" using rel(1) by (cases r') simp_all
    then show ?thesis using Inr m m' rel(2) Cons.IH by simp
  qed
qed

lemma init_index_velodyne:
  "init_index (env\<lparr>velodyne_files := v\<rparr>) stype c = init_index env stype c"
  by (simp add: init_index_def Let_def cong: sum.case_cong if_cong)

lemma init_cache_velodyne:
  "map_sum id (\<lambda>r. ()) (init_cache (env\<lparr>velodyne_files := v\<rparr>) store self)
   = map_sum id (\<lambda>r. ()) (init_cache env store self)"
proof -
  let ?l' = "tracklets_loop (env\<lparr>velodyne_files := v\<rparr>) (cfg self) (preload_offset self)
               (calibration_info self) (tracklet_annotations self) []"
  let ?l = "tracklets_loop env (cfg self) (preload_offset self)
               (calibration_info self) (tracklet_annotations self) []"
  obtain r' c' where l': "?l' = (r', c')" by (cases ?l')
  obtain r c0 where l: "?l = (r, c0)" by (cases ?l)
  have rel: "map_sum id (\<lambda>t. ()) r' = map_sum id (\<lambda>t. ()) r"
    using tracklets_loop_velodyne[where env = env and v = v and c = "cfg self"
      and offset = "preload_offset self" and ci = "calibration_info self"
      and tas = "tracklet_annotations self" and acc = "[]" and acc' = "[]"] l l' by simp
  show ?thesis using rel
    by (cases r; cases r') (simp_all add: init_cache_def l l' split: option.splits)
qed

lemma init_dataset_velodyne:
  "map_sum id (\<lambda>r. ()) (init_dataset (env\<lparr>velodyne_files := v\<rparr>) store stype c)
   = map_sum id (\<lambda>r. ()) (init_dataset env store stype c)"
  using init_cache_velodyne[where env = env and v = v and store = store]
  by (simp add: init_dataset_def init_index_velodyne split: sum.splits)

subsection \<open>Bounding boxes and the point-cloud fallback\<close>

lemma demo_calibration:
  "read_calibration_file demo_env s =
     Inr [''Tr_velo_cam'' \<mapsto> [[1, 0, 0, 0], [0, 1, 0, 0], [0, 0, 1, 0]]]"
  by (simp add: read_calibration_file_def demo_env_def demo_float_def reshape_3_4_def)

lemma demo_anno_fields:
  "scene (demo_anno s f t) = s" "frame (demo_anno s f t) = f" "track_id (demo_anno s f t) = t"
  "pos_x (demo_anno s f t) = 1" "pos_y (demo_anno s f t) = 3" "pos_z (demo_anno s f t) = 10"
  "height (demo_anno s f t) = 2" "width (demo_anno s f t) = 1" "box_length (demo_anno s f t) = 4"
  "rotation_y (demo_anno s f t) = 0"
  by (simp_all add: demo_anno_def demo_row_def insert_scene_def label_row.extend_def
        frame_anno.fields_def)

lemma demo_prelude_velodyne:
  "fst (frame_prelude demo_env ''velodyne'' Map.empty (demo_anno s f t)) =
     Inr ([[1, 0, 0, 0], [0, 1, 0, 0], [0, 0, 1, 0], [0, 0, 0, 1]],
          \<lparr>center = [1, 2, 10], wlh = [1, 4, 2],
           orientation = QuatMul (Quaternion [0, 0, - 1] (Radians 0))
                                 (Quaternion [0, 0, - 1] (Degrees 90))\<rparr>)"
proof -
  have inv: "linalg_inv demo_env [[1, 0, 0, 0], [0, 1, 0, 0], [0, 0, 1, 0], [0, 0, 0, 1]]
             = Inr [[1, 0, 0, 0], [0, 1, 0, 0], [0, 0, 1, 0], [0, 0, 0, 1]]"
    by (simp add: demo_env_def)
  show ?thesis
    by (simp add: frame_prelude_def get_calib_def demo_calibration velo_to_cam_of_def
          build_bbox_def demo_anno_fields inv np_dot_def)
qed

lemma demo_prelude_camera:
  "fst (frame_prelude demo_env ''camera'' Map.empty (demo_anno s f t)) =
     Inr ([[1, 0, 0, 0], [0, 1, 0, 0], [0, 0, 1, 0], [0, 0, 0, 1]],
          \<lparr>center = [1, 2, 10], wlh = [1, 4, 2],
           orientation = QuatMul (Quaternion [0, 1, 0] (Radians 0))
                                 (Quaternion [1, 0, 0] (Radians (pi / 2)))\<rparr>)"
  by (simp add: frame_prelude_def get_calib_def demo_calibration velo_to_cam_of_def
        build_bbox_def demo_anno_fields)


lemma build_frame_error_iff:
  "isl (fst (build_frame env mode ci a)) = isl (fst (frame_prelude env mode ci a))"
  by (simp add: build_frame_prelude split: prod.splits sum.splits)

lemma load_pcd_fails_iff:
  "isl (load_pcd env mode m s f) =
     (isl (velodyne_files env s f)
      \<or> (\<exists>buf. velodyne_files env s f = Inr buf \<and> length buf mod 4 \<noteq> 0)
      \<or> (\<exists>buf rows. velodyne_files env s f = Inr buf \<and> reshape_rows_4 buf = Inr rows
            \<and> mode = ''camera'' \<and> isl (pcd_transform env m (PointCloud (transpose_4 rows)))))"
  by (auto simp: load_pcd_def reshape_rows_4_def split: sum.splits)

text \<open>
  Claim C5. When reading the point-cloud file of a record fails (the file is missing or
  unreadable), \<^verbatim>\<open>_build_frame\<close> raises nothing for it: its outcome is the outcome of
  the part before the \<^verbatim>\<open>try\<close> (calibration, mode assertion, bounding box), and when
  that part succeeds the frame holds the single-point placeholder \<open>[[0], [0], [0]]\<close>.
  In general \<^verbatim>\<open>_build_frame\<close> fails exactly when the part before the \<^verbatim>\<open>try\<close>
  fails. Construction continues past such records: whether \<^verbatim>\<open>__init__\<close> succeeds, and
  with which exception it fails, does not depend on the point-cloud files at all.
\<close>

theorem missing_point_cloud_placeholder:
  "(velodyne_files env (scene a) (frame a) = Inl e \<longrightarrow>
      build_frame env mode ci a =
        (case frame_prelude env mode ci a of
           (Inl e', ci') \<Rightarrow> (Inl e', ci')
         | (Inr (m, b), ci') \<Rightarrow>
             (Inr \<lparr>pcd = PointCloud [[0], [0], [0]], bbox = b, anno = a\<rparr>, ci')))
   \<and> isl (fst (build_frame env mode ci a)) = isl (fst (frame_prelude env mode ci a))
   \<and> map_sum id (\<lambda>r. ()) (init_dataset (env\<lparr>velodyne_files := v\<rparr>) store stype c)
       = map_sum id (\<lambda>r. ()) (init_dataset env store stype c)"
proof -
  have "build_frame env mode ci a =
        (case frame_prelude env mode ci a of
           (Inl e', ci') \<Rightarrow> (Inl e', ci')
         | (Inr (m, b), ci') \<Rightarrow>
             (Inr \<lparr>pcd = PointCloud [[0], [0], [0]], bbox = b, anno = a\<rparr>, ci'))"
    if "velodyne_files env (scene a) (frame a) = Inl e"
    using that
    by (simp add: build_frame_prelude load_pcd_def placeholder_pcd_def split: prod.splits sum.splits)
  then show ?thesis
    using build_frame_error_iff[of env mode ci a]
      init_dataset_velodyne[where env = env and v = v and store = store and stype = stype and c = c]
    by blast
qed

theorem missing_point_cloud_placeholder_witness:
  "velodyne_files demo_env (scene (demo_anno 0 1 0)) (frame (demo_anno 0 1 0)) = Inl FileNotFoundError
   \<and> fst (build_frame demo_env ''velodyne'' Map.empty (demo_anno 0 1 0)) =
       Inr \<lparr>pcd = PointCloud [[0], [0], [0]],
            bbox = \<lparr>center = [1, 2, 10], wlh = [1, 4, 2],
                    orientation = QuatMul (Quaternion [0, 0, - 1] (Radians 0))
                                          (Quaternion [0, 0, - 1] (Degrees 90))\<rparr>,
            anno = demo_anno 0 1 0\<rparr>"
proof -
  have h: "velodyne_files demo_env (scene (demo_anno 0 1 0)) (frame (demo_anno 0 1 0))
           = Inl FileNotFoundError"
    by (simp add: demo_env_def demo_anno_fields)
  obtain r ci' where p: "frame_prelude demo_env ''velodyne'' Map.empty (demo_anno 0 1 0) = (r, ci')"
    by (cases "frame_prelude demo_env ''velodyne'' Map.empty (demo_anno 0 1 0)")
  have r: "r = Inr ([[1, 0, 0, 0], [0, 1, 0, 0], [0, 0, 1, 0], [0, 0, 0, 1]],
          \<lparr>center = [1, 2, 10], wlh = [1, 4, 2],
           orientation = QuatMul (Quaternion [0, 0, - 1] (Radians 0))
                                 (Quaternion [0, 0, - 1] (Degrees 90))\<rparr>)"
    using demo_prelude_velodyne[of 0 1 0] p by simp
  show ?thesis
    using h missing_point_cloud_placeholder[where env = demo_env and a = "demo_anno 0 1 0"
        and e = FileNotFoundError and mode = "''velodyne''" and ci = Map.empty]
    by (simp add: p r)
qed

text \<open>
  Claim C10. The fallback is taken for every exception of the load-and-transform block:
  the block fails exactly when reading the buffer fails, or the number of values read is
  not a multiple of four, or (in camera mode) the transform fails. In each case
  \<^verbatim>\<open>_build_frame\<close> returns the placeholder, three rows of one zero each, to which the
  camera transform is not applied (when reading or reshaping fails, the result is the
  same for every transform routine \<open>T\<close>). Otherwise the frame holds the loaded cloud.
  The part of \<^verbatim>\<open>_build_frame\<close> before the \<^verbatim>\<open>try\<close> is assumed to have succeeded.
\<close>

theorem load_block_fallback:
  assumes "frame_prelude env mode ci a = (Inr (m, b), ci')"
  shows "isl (load_pcd env mode m (scene a) (frame a)) =
           (isl (velodyne_files env (scene a) (frame a))
            \<or> (\<exists>buf. velodyne_files env (scene a) (frame a) = Inr buf \<and> length buf mod 4 \<noteq> 0)
            \<or> (\<exists>buf rows. velodyne_files env (scene a) (frame a) = Inr buf
                  \<and> reshape_rows_4 buf = Inr rows \<and> mode = ''camera''
                  \<and> isl (pcd_transform env m (PointCloud (transpose_4 rows)))))
       \<and> (isl (load_pcd env mode m (scene a) (frame a)) \<longrightarrow>
             build_frame env mode ci a =
               (Inr \<lparr>pcd = PointCloud [[0], [0], [0]], bbox = b, anno = a\<rparr>, ci'))
       \<and> (isl (velodyne_files env (scene a) (frame a))
            \<or> (\<exists>buf. velodyne_files env (scene a) (frame a) = Inr buf \<and> length buf mod 4 \<noteq> 0)
           \<longrightarrow> build_frame (env\<lparr>pcd_transform := T\<rparr>) mode ci a =
                 (Inr \<lparr>pcd = PointCloud [[0], [0], [0]], bbox = b, anno = a\<rparr>, ci'))
       \<and> (\<forall>p. load_pcd env mode m (scene a) (frame a) = Inr p \<longrightarrow>
             build_frame env mode ci a = (Inr \<lparr>pcd = p, bbox = b, anno = a\<rparr>, ci'))"
proof -
  have pre: "frame_prelude (env\<lparr>pcd_transform := T\<rparr>) mode ci a = frame_prelude env mode ci a"
    by (simp add: frame_prelude_def get_calib_def read_calibration_file_def build_bbox_def
          split: option.splits sum.splits prod.splits)
  have a1: "isl (load_pcd env mode m (scene a) (frame a)) \<longrightarrow>
             build_frame env mode ci a =
               (Inr \<lparr>pcd = PointCloud [[0], [0], [0]], bbox = b, anno = a\<rparr>, ci')"
    using assms by (simp add: build_frame_prelude placeholder_pcd_def split: sum.splits)
  have a2: "isl (velodyne_files env (scene a) (frame a))
            \<or> (\<exists>buf. velodyne_files env (scene a) (frame a) = Inr buf \<and> length buf mod 4 \<noteq> 0)
           \<longrightarrow> build_frame (env\<lparr>pcd_transform := T\<rparr>) mode ci a =
                 (Inr \<lparr>pcd = PointCloud [[0], [0], [0]], bbox = b, anno = a\<rparr>, ci')"
    using assms
    by (auto simp: build_frame_prelude pre placeholder_pcd_def load_pcd_def reshape_rows_4_def
          split: sum.splits)
  have a3: "\<forall>p. load_pcd env mode m (scene a) (frame a) = Inr p \<longrightarrow>
             build_frame env mode ci a = (Inr \<lparr>pcd = p, bbox = b, anno = a\<rparr>, ci')"
    using assms by (simp add: build_frame_prelude)
  show ?thesis using load_pcd_fails_iff[of env mode m "scene a" "frame a"] a1 a2 a3 by blast
qed

theorem load_block_fallback_witness:
  "(\<exists>buf. velodyne_files demo_env (scene (demo_anno 0 2 0)) (frame (demo_anno 0 2 0)) = Inr buf
          \<and> length buf mod 4 \<noteq> 0)
   \<and> fst (build_frame demo_env ''camera'' Map.empty (demo_anno 0 2 0)) =
       Inr \<lparr>pcd = PointCloud [[0], [0], [0]],
            bbox = \<lparr>center = [1, 2, 10], wlh = [1, 4, 2],
                    orientation = QuatMul (Quaternion [0, 1, 0] (Radians 0))
                                          (Quaternion [1, 0, 0] (Radians (pi / 2)))\<rparr>,
            anno = demo_anno 0 2 0\<rparr>
   \<and> fst (build_frame (demo_env\<lparr>pcd_transform := \<lambda>m p. Inl ValueError\<rparr>) ''camera'' Map.empty
             (demo_anno 0 2 0)) =
       Inr \<lparr>pcd = PointCloud [[0], [0], [0]],
            bbox = \<lparr>center = [1, 2, 10], wlh = [1, 4, 2],
                    orientation = QuatMul (Quaternion [0, 1, 0] (Radians 0))
                                          (Quaternion [1, 0, 0] (Radians (pi / 2)))\<rparr>,
            anno = demo_anno 0 2 0\<rparr>"
proof -
  have h: "\<exists>buf. velodyne_files demo_env (scene (demo_anno 0 2 0)) (frame (demo_anno 0 2 0)) = Inr buf
          \<and> length buf mod 4 \<noteq> 0"
    by (simp add: demo_env_def demo_anno_fields)
  obtain r ci' where p: "frame_prelude demo_env ''camera'' Map.empty (demo_anno 0 2 0) = (r, ci')"
    by (cases "frame_prelude demo_env ''camera'' Map.empty (demo_anno 0 2 0)")
  have r: "r = Inr ([[1, 0, 0, 0], [0, 1, 0, 0], [0, 0, 1, 0], [0, 0, 0, 1]],
          \<lparr>center = [1, 2, 10], wlh = [1, 4, 2],
           orientation = QuatMul (Quaternion [0, 1, 0] (Radians 0))
                                 (Quaternion [1, 0, 0] (Radians (pi / 2)))\<rparr>)"
    using demo_prelude_camera[of 0 2 0] p by simp
  have "isl (load_pcd demo_env ''camera'' [[1, 0, 0, 0], [0, 1, 0, 0], [0, 0, 1, 0], [0, 0, 0, 1]]
               (scene (demo_anno 0 2 0)) (frame (demo_anno 0 2 0)))"
    using load_pcd_fails_iff h by blast
  then show ?thesis
    using h load_block_fallback[OF p[unfolded r], of "\<lambda>m p. Inl ValueError"] by simp
qed

lemma kitti_calibration:
  "read_calibration_file kitti_env s =
     Inr [''Tr_velo_cam'' \<mapsto> [[0, - 1, 0, 0], [0, 0, - 1, 0], [1, 0, 0, 0]]]"
  by (simp add: read_calibration_file_def kitti_env_def kitti_float_def reshape_3_4_def)

lemma kitti_inverse:
  "linalg_inv kitti_env [[0, - 1, 0, 0], [0, 0, - 1, 0], [1, 0, 0, 0], [0, 0, 0, 1]]
   = Inr [[0, 0, 1, 0], [- 1, 0, 0, 0], [0, - 1, 0, 0], [0, 0, 0, 1]]"
  by (simp add: kitti_env_def rigid_inv_def upt_conv_Cons Let_def)

lemma four_eq_Suc: "(4::nat) = Suc (Suc (Suc (Suc 0)))"
  by simp

lemma build_frame_bbox_camera:
  assumes "fst (get_calib env ci (scene a)) = Inr calib" and "calib ''Tr_velo_cam'' = Some m"
  shows "map_sum id bbox (fst (build_frame env ''camera'' ci a)) =
           Inr \<lparr>center = [pos_x a, pos_y a - height a / 2, pos_z a],
                wlh = [width a, box_length a, height a],
                orientation = QuatMul (Quaternion [0, 1, 0] (Radians (rotation_y a)))
                                      (Quaternion [1, 0, 0] (Radians (pi / 2)))\<rparr>"
proof -
  obtain r ci' where g: "get_calib env ci (scene a) = (r, ci')"
    by (cases "get_calib env ci (scene a)")
  then have r: "r = Inr calib" using assms(1) by simp
  show ?thesis
    by (simp add: build_frame_def frame_prelude_def g r velo_to_cam_of_def assms(2)
          build_bbox_def)
qed

lemma build_frame_bbox_velodyne:
  assumes "fst (get_calib env ci (scene a)) = Inr calib" and "calib ''Tr_velo_cam'' = Some m"
  shows "map_sum id bbox (fst (build_frame env ''velodyne'' ci a)) =
           (case linalg_inv env (m @ [[0, 0, 0, 1]]) of
              Inl e \<Rightarrow> Inl e
            | Inr inv_m \<Rightarrow>
                if list_all (\<lambda>row. length row = 4) inv_m
                then Inr \<lparr>center = take 3 (map (\<lambda>row. sum_list (map2 (*) row
                                      [pos_x a, pos_y a - height a / 2, pos_z a, 1])) inv_m),
                          wlh = [width a, box_length a, height a],
                          orientation = QuatMul (Quaternion [0, 0, - 1] (Radians (rotation_y a)))
                                                (Quaternion [0, 0, - 1] (Degrees 90))\<rparr>
                else Inl ValueError)"
proof -
  obtain r ci' where g: "get_calib env ci (scene a) = (r, ci')"
    by (cases "get_calib env ci (scene a)")
  then have r: "r = Inr calib" using assms(1) by simp
  show ?thesis
    by (simp add: build_frame_def frame_prelude_def g r velo_to_cam_of_def assms(2)
          build_bbox_def np_dot_def Let_def four_eq_Suc split: sum.splits)
qed

text \<open>
  Claim C6. Given the calibration of the scene with its matrix \<^verbatim>\<open>Tr_velo_cam\<close>, frame
  building in camera mode succeeds with the bounding-box center \<open>(x, y - height / 2, z)\<close>
  and the extents \<open>(width, length, height)\<close>. In sensor mode (\<^verbatim>\<open>'velodyne'\<close>) it
  succeeds whenever \<^verbatim>\<open>np.linalg.inv(velo_to_cam)\<close> returns a matrix with four columns,
  where \<open>velo_to_cam\<close> is \<^verbatim>\<open>Tr_velo_cam\<close> with the row \<open>(0, 0, 0, 1)\<close> appended; the
  extents are the same and the center is the first three components of the product of
  that inverse with the homogeneous vector \<open>(x, y - height / 2, z, 1)\<close>: the inverse
  matrix applied to the camera-mode center. When the inversion raises, so does frame
  building, with the same exception.
\<close>

theorem bbox_center_camera_sensor:
  assumes "fst (get_calib env ci (scene a)) = Inr calib" and "calib ''Tr_velo_cam'' = Some m"
  shows "map_sum id bbox (fst (build_frame env ''camera'' ci a)) =
           Inr \<lparr>center = [pos_x a, pos_y a - height a / 2, pos_z a],
                wlh = [width a, box_length a, height a],
                orientation = QuatMul (Quaternion [0, 1, 0] (Radians (rotation_y a)))
                                      (Quaternion [1, 0, 0] (Radians (pi / 2)))\<rparr>
       \<and> map_sum id bbox (fst (build_frame env ''velodyne'' ci a)) =
           (case linalg_inv env (m @ [[0, 0, 0, 1]]) of
              Inl e \<Rightarrow> Inl e
            | Inr inv_m \<Rightarrow>
                if list_all (\<lambda>row. length row = 4) inv_m
                then Inr \<lparr>center = take 3 (map (\<lambda>row. sum_list (map2 (*) row
                                      [pos_x a, pos_y a - height a / 2, pos_z a, 1])) inv_m),
                          wlh = [width a, box_length a, height a],
                          orientation = QuatMul (Quaternion [0, 0, - 1] (Radians (rotation_y a)))
                                                (Quaternion [0, 0, - 1] (Degrees 90))\<rparr>
                else Inl ValueError)
       \<and> (\<forall>inv_m. linalg_inv env (m @ [[0, 0, 0, 1]]) = Inr inv_m
              \<longrightarrow> list_all (\<lambda>row. length row = 4) inv_m
              \<longrightarrow> (\<exists>fc fv v. fst (build_frame env ''camera'' ci a) = Inr fc
                     \<and> fst (build_frame env ''velodyne'' ci a) = Inr fv
                     \<and> np_dot inv_m (center (bbox fc) @ [1]) = Inr v
                     \<and> center (bbox fv) = take 3 v
                     \<and> wlh (bbox fv) = wlh (bbox fc)
                     \<and> wlh (bbox fc) = [width a, box_length a, height a]))"
proof -
  note cam = build_frame_bbox_camera[OF assms] and velo = build_frame_bbox_velodyne[OF assms]
  have rel: "\<exists>fc fv v. fst (build_frame env ''camera'' ci a) = Inr fc
                     \<and> fst (build_frame env ''velodyne'' ci a) = Inr fv
                     \<and> np_dot inv_m (center (bbox fc) @ [1]) = Inr v
                     \<and> center (bbox fv) = take 3 v
                     \<and> wlh (bbox fv) = wlh (bbox fc)
                     \<and> wlh (bbox fc) = [width a, box_length a, height a]"
    if i: "linalg_inv env (m @ [[0, 0, 0, 1]]) = Inr inv_m"
      and sh: "list_all (\<lambda>row. length row = 4) inv_m" for inv_m
  proof -
    from cam obtain fc where fc: "fst (build_frame env ''camera'' ci a) = Inr fc"
      and bc: "bbox fc = \<lparr>center = [pos_x a, pos_y a - height a / 2, pos_z a],
                wlh = [width a, box_length a, height a],
                orientation = QuatMul (Quaternion [0, 1, 0] (Radians (rotation_y a)))
                                      (Quaternion [1, 0, 0] (Radians (pi / 2)))\<rparr>"
      by (cases "fst (build_frame env ''camera'' ci a)") auto
    from velo i sh obtain fv where fv: "fst (build_frame env ''velodyne'' ci a) = Inr fv"
      and bv: "bbox fv = \<lparr>center = take 3 (map (\<lambda>row. sum_list (map2 (*) row
                                      [pos_x a, pos_y a - height a / 2, pos_z a, 1])) inv_m),
                          wlh = [width a, box_length a, height a],
                          orientation = QuatMul (Quaternion [0, 0, - 1] (Radians (rotation_y a)))
                                                (Quaternion [0, 0, - 1] (Degrees 90))\<rparr>"
      by (cases "fst (build_frame env ''velodyne'' ci a)") auto
    have "np_dot inv_m (center (bbox fc) @ [1]) =
            Inr (map (\<lambda>row. sum_list (map2 (*) row
                        [pos_x a, pos_y a - height a / 2, pos_z a, 1])) inv_m)"
      using sh by (simp add: np_dot_def bc four_eq_Suc)
    then show ?thesis using fc fv bc bv by simp
  qed
  show ?thesis using cam velo rel by blast
qed

theorem bbox_center_camera_sensor_witness:
  "fst (get_calib kitti_env Map.empty (scene (demo_anno 0 0 0)))
     = Inr [''Tr_velo_cam'' \<mapsto> [[0, - 1, 0, 0], [0, 0, - 1, 0], [1, 0, 0, 0]]]
   \<and> map_sum id (\<lambda>f. (center (bbox f), wlh (bbox f)))
        (fst (build_frame kitti_env ''camera'' Map.empty (demo_anno 0 0 0)))
       = Inr ([1, 2, 10], [1, 4, 2])
   \<and> map_sum id (\<lambda>f. (center (bbox f), wlh (bbox f)))
        (fst (build_frame kitti_env ''velodyne'' Map.empty (demo_anno 0 0 0)))
       = Inr ([10, - 1, - 2], [1, 4, 2])"
proof -
  let ?calib = "[''Tr_velo_cam'' \<mapsto> [[0, - 1, 0, 0], [0, 0, - 1, 0], [1, 0, 0, 0 :: real]]]"
  have g: "fst (get_calib kitti_env Map.empty (scene (demo_anno 0 0 0))) = Inr ?calib"
    by (simp add: get_calib_def kitti_calibration)
  have k: "?calib ''Tr_velo_cam'' = Some [[0, - 1, 0, 0], [0, 0, - 1, 0], [1, 0, 0, 0]]"
    by simp
  note t = bbox_center_camera_sensor[OF g k]
  have cam: "map_sum id bbox (fst (build_frame kitti_env ''camera'' Map.empty (demo_anno 0 0 0))) =
           Inr \<lparr>center = [1, 2, 10], wlh = [1, 4, 2],
                orientation = QuatMul (Quaternion [0, 1, 0] (Radians 0))
                                      (Quaternion [1, 0, 0] (Radians (pi / 2)))\<rparr>"
    using t by (simp add: demo_anno_fields)
  have velo: "map_sum id bbox (fst (build_frame kitti_env ''velodyne'' Map.empty (demo_anno 0 0 0))) =
           Inr \<lparr>center = [10, - 1, - 2], wlh = [1, 4, 2],
                orientation = QuatMul (Quaternion [0, 0, - 1] (Radians 0))
                                      (Quaternion [0, 0, - 1] (Degrees 90))\<rparr>"
    using t by (simp add: kitti_inverse demo_anno_fields)
  have c: "map_sum id (\<lambda>f. (center (bbox f), wlh (bbox f)))
        (fst (build_frame kitti_env ''camera'' Map.empty (demo_anno 0 0 0)))
       = Inr ([1, 2, 10], [1, 4, 2])"
    using cam by (cases "fst (build_frame kitti_env ''camera'' Map.empty (demo_anno 0 0 0))") auto
  have v: "map_sum id (\<lambda>f. (center (bbox f), wlh (bbox f)))
        (fst (build_frame kitti_env ''velodyne'' Map.empty (demo_anno 0 0 0)))
       = Inr ([10, - 1, - 2], [1, 4, 2])"
    using velo by (cases "fst (build_frame kitti_env ''velodyne'' Map.empty (demo_anno 0 0 0))") auto
  show ?thesis using g c v by blast
qed


section \<open>Materialization, cropping and the cache\<close>

subsection \<open>What the loops of the cache-miss branch return\<close>

lemma py_getitem_map: "py_getitem (map g xs) i = map_sum id g (py_getitem xs i)"
proof -
  have a: "nat (int (length xs) + i) < length xs" if "i < 0" "- int (length xs) \<le> i"
    using that by linarith
  have b: "nat i < length xs" if "0 \<le> i" "i < int (length xs)"
    using that by linarith
  show ?thesis using a b by (auto simp: py_getitem_def)
qed

lemma py_getitem_in_set: "py_getitem xs i = Inr x \<Longrightarrow> x \<in> set xs"
  by (auto simp: py_getitem_def split: if_splits)

lemma frames_loop_result:
  assumes "memo_ok env ci" and "frames_loop env mode ci annos built = (Inr fs, ci')"
  shows "fs = built @ map (\<lambda>a. projr (fst (build_frame env mode Map.empty a))) annos
       \<and> (\<forall>a\<in>set annos. \<not> isl (fst (build_frame env mode Map.empty a)))
       \<and> memo_ok env ci'"
  using assms
proof (induction annos arbitrary: ci built)
  case Nil
  then show ?case by simp
next
  case (Cons a annos)
  obtain r c1 where b: "build_frame env mode ci a = (r, c1)" by (cases "build_frame env mode ci a")
  have m: "r = fst (build_frame env mode Map.empty a)" "memo_ok env c1"
    using build_frame_memo(1,2)[OF Cons.prems(1), of mode a] b by simp_all
  from Cons.prems(2) b obtain f where f: "r = Inr f"
    and rec: "frames_loop env mode c1 annos (built @ [f]) = (Inr fs, ci')"
    by (cases r) simp_all
  from Cons.IH[OF m(2) rec] f m(1) show ?case by simp
qed

lemma frames_loop_success:
  assumes "memo_ok env ci"
    and "\<forall>a\<in>set annos. \<not> isl (fst (build_frame env mode Map.empty a))"
  shows "fst (frames_loop env mode ci annos built)
         = Inr (built @ map (\<lambda>a. projr (fst (build_frame env mode Map.empty a))) annos)"
  using assms
proof (induction annos arbitrary: ci built)
  case Nil
  then show ?case by simp
next
  case (Cons a annos)
  obtain r c1 where b: "build_frame env mode ci a = (r, c1)" by (cases "build_frame env mode ci a")
  have m: "r = fst (build_frame env mode Map.empty a)" "memo_ok env c1"
    using build_frame_memo(1,2)[OF Cons.prems(1), of mode a] b by simp_all
  have "\<not> isl r" using Cons.prems(2) m(1) by simp
  then obtain f where f: "r = Inr f" by (cases r) simp_all
  have "\<forall>a\<in>set annos. \<not> isl (fst (build_frame env mode Map.empty a))"
    using Cons.prems(2) by simp
  from Cons.IH[OF m(2) this, of "built @ [f]"] f m(1) b show ?case by simp
qed

lemma materialize_tracklet_result:
  assumes "memo_ok env ci" and "materialize_tracklet env c offset ci ta = (Inr t, ci')"
  shows "t = \<lparr>comp_template_pcd =
               merge_template_pcds env
                 (map pcd (map (\<lambda>a. projr (fst (build_frame env (coordinate_mode c) Map.empty a))) ta))
                 (map bbox (map (\<lambda>a. projr (fst (build_frame env (coordinate_mode c) Map.empty a))) ta))
                 (model_offset c) (model_scale c),
             frames =
               (if offset > 0
                then map (crop_frame env offset)
                       (map (\<lambda>a. projr (fst (build_frame env (coordinate_mode c) Map.empty a))) ta)
                else map (\<lambda>a. projr (fst (build_frame env (coordinate_mode c) Map.empty a))) ta)\<rparr>
       \<and> (\<forall>a\<in>set ta. \<not> isl (fst (build_frame env (coordinate_mode c) Map.empty a)))
       \<and> memo_ok env ci'"
proof -
  obtain r c1 where l: "frames_loop env (coordinate_mode c) ci ta [] = (r, c1)"
    by (cases "frames_loop env (coordinate_mode c) ci ta []")
  from assms(2) l obtain fs where fs: "r = Inr fs" and c1: "c1 = ci'"
    and t: "t = \<lparr>comp_template_pcd = merge_template_pcds env (map pcd fs) (map bbox fs)
                    (model_offset c) (model_scale c),
                 frames = (if offset > 0 then map (crop_frame env offset) fs else fs)\<rparr>"
    by (cases r) (auto simp: materialize_tracklet_def Let_def)
  from frames_loop_result[OF assms(1) l[unfolded fs]] t c1 show ?thesis by simp
qed

lemma tracklets_loop_result:
  assumes "memo_ok env ci" and "tracklets_loop env c offset ci tas acc = (Inr ts, ci')"
  shows "ts = acc @ map (\<lambda>ta. projr (fst (materialize_tracklet env c offset Map.empty ta))) tas
       \<and> (\<forall>ta\<in>set tas. \<not> isl (fst (materialize_tracklet env c offset Map.empty ta)))
       \<and> memo_ok env ci'"
  using assms
proof (induction tas arbitrary: ci acc)
  case Nil
  then show ?case by simp
next
  case (Cons ta tas)
  obtain r c1 where b: "materialize_tracklet env c offset ci ta = (r, c1)"
    by (cases "materialize_tracklet env c offset ci ta")
  from Cons.prems(2) b obtain t where t: "r = Inr t"
    and rec: "tracklets_loop env c offset c1 tas (acc @ [t]) = (Inr ts, ci')"
    by (cases r) simp_all
  have m1: "memo_ok env c1"
    and tv: "t = \<lparr>comp_template_pcd =
               merge_template_pcds env
                 (map pcd (map (\<lambda>a. projr (fst (build_frame env (coordinate_mode c) Map.empty a))) ta))
                 (map bbox (map (\<lambda>a. projr (fst (build_frame env (coordinate_mode c) Map.empty a))) ta))
                 (model_offset c) (model_scale c),
             frames =
               (if offset > 0
                then map (crop_frame env offset)
                       (map (\<lambda>a. projr (fst (build_frame env (coordinate_mode c) Map.empty a))) ta)
                else map (\<lambda>a. projr (fst (build_frame env (coordinate_mode c) Map.empty a))) ta)\<rparr>"
    and ok: "\<forall>a\<in>set ta. \<not> isl (fst (build_frame env (coordinate_mode c) Map.empty a))"
    using materialize_tracklet_result[OF Cons.prems(1) b[unfolded t]] by simp_all
  text \<open>From a fresh memo the tracklet is materialized to the same value.\<close>
  have "fst (frames_loop env (coordinate_mode c) Map.empty ta [])
        = Inr ([] @ map (\<lambda>a. projr (fst (build_frame env (coordinate_mode c) Map.empty a))) ta)"
    using frames_loop_success[OF memo_ok_empty ok] .
  then have fresh: "fst (materialize_tracklet env c offset Map.empty ta) = Inr t"
    unfolding tv
    by (cases "frames_loop env (coordinate_mode c) Map.empty ta []")
       (simp add: materialize_tracklet_def Let_def)
  from Cons.IH[OF m1 rec] fresh show ?case by simp
qed

lemma materialize_tracklet_success:
  assumes "memo_ok env ci"
    and "\<forall>a\<in>set ta. \<not> isl (fst (build_frame env (coordinate_mode c) Map.empty a))"
  shows "fst (materialize_tracklet env c offset ci ta) =
     Inr \<lparr>comp_template_pcd =
               merge_template_pcds env
                 (map pcd (map (\<lambda>a. projr (fst (build_frame env (coordinate_mode c) Map.empty a))) ta))
                 (map bbox (map (\<lambda>a. projr (fst (build_frame env (coordinate_mode c) Map.empty a))) ta))
                 (model_offset c) (model_scale c),
             frames =
               (if offset > 0
                then map (crop_frame env offset)
                       (map (\<lambda>a. projr (fst (build_frame env (coordinate_mode c) Map.empty a))) ta)
                else map (\<lambda>a. projr (fst (build_frame env (coordinate_mode c) Map.empty a))) ta)\<rparr>"
proof -
  have "fst (frames_loop env (coordinate_mode c) ci ta [])
        = Inr ([] @ map (\<lambda>a. projr (fst (build_frame env (coordinate_mode c) Map.empty a))) ta)"
    using frames_loop_success[OF assms] .
  then show ?thesis
    by (cases "frames_loop env (coordinate_mode c) ci ta []")
       (simp add: materialize_tracklet_def Let_def)
qed

lemma materialize_tracklet_memo:
  assumes "memo_ok env ci"
  shows "memo_ok env (snd (materialize_tracklet env c offset ci ta))"
proof -
  have fl: "memo_ok env (snd (frames_loop env mode ci0 annos built))" if "memo_ok env ci0"
    for mode ci0 annos built
    using that
  proof (induction annos arbitrary: ci0 built)
    case Nil
    then show ?case by simp
  next
    case (Cons a annos)
    obtain r c1 where b: "build_frame env mode ci0 a = (r, c1)"
      by (cases "build_frame env mode ci0 a")
    have m: "memo_ok env c1" using build_frame_memo(2)[OF Cons.prems, of mode a] b by simp
    show ?case using Cons.IH[OF m] m b by (cases r) simp_all
  qed
  obtain r c1 where l: "frames_loop env (coordinate_mode c) ci ta [] = (r, c1)"
    by (cases "frames_loop env (coordinate_mode c) ci ta []")
  have "memo_ok env c1" using fl[OF assms, of "coordinate_mode c" ta "[]"] l by simp
  then show ?thesis by (cases r) (simp_all add: materialize_tracklet_def l Let_def)
qed

lemma tracklets_loop_success:
  assumes "memo_ok env ci"
    and "\<forall>ta\<in>set tas. \<forall>a\<in>set ta. \<not> isl (fst (build_frame env (coordinate_mode c) Map.empty a))"
  shows "fst (tracklets_loop env c offset ci tas acc)
         = Inr (acc @ map (\<lambda>ta. projr (fst (materialize_tracklet env c offset Map.empty ta))) tas)"
  using assms
proof (induction tas arbitrary: ci acc)
  case Nil
  then show ?case by simp
next
  case (Cons ta tas)
  have ok: "\<forall>a\<in>set ta. \<not> isl (fst (build_frame env (coordinate_mode c) Map.empty a))"
    and rest: "\<forall>ta\<in>set tas. \<forall>a\<in>set ta. \<not> isl (fst (build_frame env (coordinate_mode c) Map.empty a))"
    using Cons.prems(2) by simp_all
  obtain r c1 where b: "materialize_tracklet env c offset ci ta = (r, c1)"
    by (cases "materialize_tracklet env c offset ci ta")
  have e1: "fst (materialize_tracklet env c offset ci ta)
        = fst (materialize_tracklet env c offset Map.empty ta)"
    using materialize_tracklet_success[OF Cons.prems(1) ok, of offset]
      materialize_tracklet_success[OF memo_ok_empty ok, of offset] by simp
  have e2: "\<not> isl (fst (materialize_tracklet env c offset ci ta))"
    using materialize_tracklet_success[OF Cons.prems(1) ok, of offset] by simp
  have "\<not> isl r" using e2 b by simp
  then obtain t where t1: "r = Inr t" by (cases r) simp_all
  have "fst (materialize_tracklet env c offset ci ta) = Inr t" using b t1 by simp
  then have "fst (materialize_tracklet env c offset Map.empty ta) = Inr t"
    by (simp only: e1)
  then have t2: "projr (fst (materialize_tracklet env c offset Map.empty ta)) = t"
    by simp
  note t = t1 t2
  have m1: "memo_ok env c1" using materialize_tracklet_memo[OF Cons.prems(1), of c offset ta] b by simp
  from Cons.IH[OF m1 rest, of "acc @ [t]"] t b show ?case by simp
qed

lemma init_cache_miss:
  assumes k: "init_cache env store self = Inr (ds, store')"
    and hit: "cache self"
    and miss: "store (cache_file_dir (cfg self) (split_type self) (preload_offset self)
                       (preload_interval self)) = None"
    and memo: "memo_ok env (calibration_info self)"
  shows "tracklets ds = Some (map (\<lambda>ta. projr (fst (materialize_tracklet env (cfg self)
                                   (preload_offset self) Map.empty ta))) (tracklet_annotations self))"
    and "\<forall>ta\<in>set (tracklet_annotations self).
           \<not> isl (fst (materialize_tracklet env (cfg self) (preload_offset self) Map.empty ta))"
    and "memo_ok env (calibration_info ds)"
    and "store' = store(cache_file_dir (cfg self) (split_type self) (preload_offset self)
                       (preload_interval self) \<mapsto> the (tracklets ds))"
proof -
  let ?l = "tracklets_loop env (cfg self) (preload_offset self) (calibration_info self)
              (tracklet_annotations self) []"
  obtain r c1 where l: "?l = (r, c1)" by (cases ?l)
  from k hit miss l obtain ts where ts: "r = Inr ts"
    and ds: "ds = self\<lparr>calibration_info := c1, tracklets := Some ts\<rparr>"
    and st: "store' = store(cache_file_dir (cfg self) (split_type self) (preload_offset self)
                       (preload_interval self) \<mapsto> ts)"
    by (cases r) (auto simp: init_cache_def)
  from tracklets_loop_result[OF memo l[unfolded ts]]
  show "tracklets ds = Some (map (\<lambda>ta. projr (fst (materialize_tracklet env (cfg self)
                                   (preload_offset self) Map.empty ta))) (tracklet_annotations self))"
    and "\<forall>ta\<in>set (tracklet_annotations self).
           \<not> isl (fst (materialize_tracklet env (cfg self) (preload_offset self) Map.empty ta))"
    and "memo_ok env (calibration_info ds)"
    using ds by simp_all
  show "store' = store(cache_file_dir (cfg self) (split_type self) (preload_offset self)
                       (preload_interval self) \<mapsto> the (tracklets ds))"
    using st ds by simp
qed

lemma materialize_tracklet_fresh:
  assumes "\<not> isl (fst (materialize_tracklet env c offset Map.empty ta))"
  shows "projr (fst (materialize_tracklet env c offset Map.empty ta)) =
     \<lparr>comp_template_pcd =
               merge_template_pcds env
                 (map pcd (map (\<lambda>a. projr (fst (build_frame env (coordinate_mode c) Map.empty a))) ta))
                 (map bbox (map (\<lambda>a. projr (fst (build_frame env (coordinate_mode c) Map.empty a))) ta))
                 (model_offset c) (model_scale c),
             frames =
               (if offset > 0
                then map (crop_frame env offset)
                       (map (\<lambda>a. projr (fst (build_frame env (coordinate_mode c) Map.empty a))) ta)
                else map (\<lambda>a. projr (fst (build_frame env (coordinate_mode c) Map.empty a))) ta)\<rparr>"
    and "\<forall>a\<in>set ta. \<not> isl (fst (build_frame env (coordinate_mode c) Map.empty a))"
proof -
  obtain r c1 where m: "materialize_tracklet env c offset Map.empty ta = (r, c1)"
    by (cases "materialize_tracklet env c offset Map.empty ta")
  then obtain t where t: "r = Inr t" using assms by (cases r) simp_all
  from materialize_tracklet_result[OF memo_ok_empty m[unfolded t]] m t
  show "projr (fst (materialize_tracklet env c offset Map.empty ta)) =
     \<lparr>comp_template_pcd =
               merge_template_pcds env
                 (map pcd (map (\<lambda>a. projr (fst (build_frame env (coordinate_mode c) Map.empty a))) ta))
                 (map bbox (map (\<lambda>a. projr (fst (build_frame env (coordinate_mode c) Map.empty a))) ta))
                 (model_offset c) (model_scale c),
             frames =
               (if offset > 0
                then map (crop_frame env offset)
                       (map (\<lambda>a. projr (fst (build_frame env (coordinate_mode c) Map.empty a))) ta)
                else map (\<lambda>a. projr (fst (build_frame env (coordinate_mode c) Map.empty a))) ta)\<rparr>"
    and "\<forall>a\<in>set ta. \<not> isl (fst (build_frame env (coordinate_mode c) Map.empty a))"
    by simp_all
qed

subsection \<open>Template before crop\<close>

lemma demo_build_frame_velodyne:
  "fst (build_frame demo_env ''velodyne'' Map.empty (demo_anno s f t)) =
     Inr \<lparr>pcd = (if f = 0 then PointCloud [[1, 5], [2, 6], [3, 7], [4, 8]]
                 else PointCloud [[0], [0], [0]]),
          bbox = \<lparr>center = [1, 2, 10], wlh = [1, 4, 2],
                  orientation = QuatMul (Quaternion [0, 0, - 1] (Radians 0))
                                        (Quaternion [0, 0, - 1] (Degrees 90))\<rparr>,
          anno = demo_anno s f t\<rparr>"
proof -
  obtain r ci' where p: "frame_prelude demo_env ''velodyne'' Map.empty (demo_anno s f t) = (r, ci')"
    by (cases "frame_prelude demo_env ''velodyne'' Map.empty (demo_anno s f t)")
  have r: "r = Inr ([[1, 0, 0, 0], [0, 1, 0, 0], [0, 0, 1, 0], [0, 0, 0, 1]],
          \<lparr>center = [1, 2, 10], wlh = [1, 4, 2],
           orientation = QuatMul (Quaternion [0, 0, - 1] (Radians 0))
                                 (Quaternion [0, 0, - 1] (Degrees 90))\<rparr>)"
    using demo_prelude_velodyne[of s f t] p by simp
  have v: "velodyne_files demo_env s f =
             (if f = 0 then Inr [1, 2, 3, 4, 5, 6, 7, 8]
              else if f = 1 then Inl FileNotFoundError else Inr [1, 2, 3])"
    by (simp add: demo_env_def)
  show ?thesis
    by (simp add: build_frame_prelude p r load_pcd_def demo_anno_fields v reshape_rows_4_def
          transpose_4_def placeholder_pcd_def upt_conv_Cons)
qed

lemma demo_init_index_cached:
  "init_index demo_env ''train'' (demo_cfg\<lparr>cache_train := True\<rparr>) =
     Inr \<lparr>split_type = ''train'', cfg = demo_cfg\<lparr>cache_train := True\<rparr>,
          preload_interval = PyInt 2, preload_offset = 1, cache = True,
          calibration_info = Map.empty,
          tracklet_annotations = [[demo_anno 0 0 0, demo_anno 0 2 0], [demo_anno 0 1 0], [demo_anno 0 0 1]],
          tracklet_num_frames = [2, 1, 1],
          tracklet_st_frame_id = [0, 2, 3], tracklet_ed_frame_id = [2, 3, 4],
          tracklets = None\<rparr>"
proof -
  have c: "category_name (demo_cfg\<lparr>cache_train := True\<rparr>) = ''Car''"
    "debug (demo_cfg\<lparr>cache_train := True\<rparr>)"
    "cfg_preload_interval (demo_cfg\<lparr>cache_train := True\<rparr>) = Some (PyInt 2)"
    "cfg_preload_offset (demo_cfg\<lparr>cache_train := True\<rparr>) = 1"
    by (simp_all add: demo_cfg_def)
  show ?thesis
    by (simp add: init_index_def c split_type_to_scene_ids_def demo_annos Let_def)
qed

lemma demo_init_cached:
  "\<exists>ds s. init_dataset demo_env demo_store ''train'' (demo_cfg\<lparr>cache_train := True\<rparr>) = Inr (ds, s)
      \<and> cache ds \<and> preload_offset ds = 1 \<and> preload_interval ds = PyInt 2
      \<and> tracklet_annotations ds = [[demo_anno 0 0 0, demo_anno 0 2 0], [demo_anno 0 1 0], [demo_anno 0 0 1]]"
proof -
  let ?c = "demo_cfg\<lparr>cache_train := True\<rparr>"
  let ?self = "\<lparr>split_type = ''train'', cfg = ?c,
          preload_interval = PyInt 2, preload_offset = 1, cache = True,
          calibration_info = Map.empty,
          tracklet_annotations = [[demo_anno 0 0 0, demo_anno 0 2 0], [demo_anno 0 1 0], [demo_anno 0 0 1]],
          tracklet_num_frames = [2, 1, 1],
          tracklet_st_frame_id = [0, 2, 3], tracklet_ed_frame_id = [2, 3, 4],
          tracklets = None\<rparr>"
  have mode: "coordinate_mode ?c = ''velodyne''" by (simp add: demo_cfg_def)
  have ok: "\<forall>ta\<in>set (tracklet_annotations ?self). \<forall>a\<in>set ta.
              \<not> isl (fst (build_frame demo_env (coordinate_mode ?c) Map.empty a))"
    by (simp add: mode demo_build_frame_velodyne)
  obtain r ci where l: "tracklets_loop demo_env ?c 1 Map.empty (tracklet_annotations ?self) [] = (r, ci)"
    by (cases "tracklets_loop demo_env ?c 1 Map.empty (tracklet_annotations ?self) []")
  have "\<not> isl r"
    using tracklets_loop_success[OF memo_ok_empty ok, of 1 "[]"] l by simp
  then obtain ts where ts: "r = Inr ts" by (cases r) simp_all
  have "init_cache demo_env demo_store ?self =
          Inr (?self\<lparr>calibration_info := ci, tracklets := Some ts\<rparr>,
               demo_store(cache_file_dir ?c ''train'' 1 (PyInt 2) \<mapsto> ts))"
    using l ts by (simp add: init_cache_def demo_store_def)
  then show ?thesis by (simp add: init_dataset_def demo_init_index_cached)
qed

lemma cache_miss_materialization:
  assumes "init_dataset env store stype c = Inr (ds, store')"
    and "cache ds"
    and "store (cache_file_dir c stype (preload_offset ds) (preload_interval ds)) = None"
  shows "\<exists>ts. tracklets ds = Some ts \<and> length ts = length (tracklet_annotations ds)
           \<and> (\<forall>i < length ts.
                 (\<forall>a \<in> set (tracklet_annotations ds ! i).
                     \<not> isl (fst (build_frame env (coordinate_mode c) Map.empty a)))
               \<and> comp_template_pcd (ts ! i) =
                   merge_template_pcds env
                     (map (\<lambda>a. pcd (projr (fst (build_frame env (coordinate_mode c) Map.empty a))))
                          (tracklet_annotations ds ! i))
                     (map (\<lambda>a. bbox (projr (fst (build_frame env (coordinate_mode c) Map.empty a))))
                          (tracklet_annotations ds ! i))
                     (model_offset c) (model_scale c)
               \<and> frames (ts ! i) =
                   (if preload_offset ds > 0
                    then map (\<lambda>a. crop_frame env (preload_offset ds)
                                    (projr (fst (build_frame env (coordinate_mode c) Map.empty a))))
                           (tracklet_annotations ds ! i)
                    else map (\<lambda>a. projr (fst (build_frame env (coordinate_mode c) Map.empty a)))
                           (tracklet_annotations ds ! i)))"
proof -
  from assms(1) obtain self where i: "init_index env stype c = Inr self"
    and k: "init_cache env store self = Inr (ds, store')"
    by (rule init_dataset_stages)
  note f = init_index_fields[OF i] and g = init_cache_fields[OF k]
  have hit: "cache self" using assms(2) g(8) by simp
  have miss: "store (cache_file_dir (cfg self) (split_type self) (preload_offset self)
                       (preload_interval self)) = None"
    using assms(3) f(3,4) g(5,9) by simp
  have memo: "memo_ok env (calibration_info self)" using f(7) by (simp add: memo_ok_empty)
  let ?M = "\<lambda>ta. projr (fst (materialize_tracklet env c (preload_offset ds) Map.empty ta))"
  have ts: "tracklets ds = Some (map ?M (tracklet_annotations ds))"
    and ok: "\<forall>ta\<in>set (tracklet_annotations ds).
           \<not> isl (fst (materialize_tracklet env c (preload_offset ds) Map.empty ta))"
    using init_cache_miss(1,2)[OF k hit miss memo] f(4) g(1,5) by simp_all
  have per: "(\<forall>a \<in> set (tracklet_annotations ds ! i).
                     \<not> isl (fst (build_frame env (coordinate_mode c) Map.empty a)))
               \<and> comp_template_pcd (map ?M (tracklet_annotations ds) ! i) =
                   merge_template_pcds env
                     (map (\<lambda>a. pcd (projr (fst (build_frame env (coordinate_mode c) Map.empty a))))
                          (tracklet_annotations ds ! i))
                     (map (\<lambda>a. bbox (projr (fst (build_frame env (coordinate_mode c) Map.empty a))))
                          (tracklet_annotations ds ! i))
                     (model_offset c) (model_scale c)
               \<and> frames (map ?M (tracklet_annotations ds) ! i) =
                   (if preload_offset ds > 0
                    then map (\<lambda>a. crop_frame env (preload_offset ds)
                                    (projr (fst (build_frame env (coordinate_mode c) Map.empty a))))
                           (tracklet_annotations ds ! i)
                    else map (\<lambda>a. projr (fst (build_frame env (coordinate_mode c) Map.empty a)))
                           (tracklet_annotations ds ! i))"
    if "i < length (tracklet_annotations ds)" for i
  proof -
    have "tracklet_annotations ds ! i \<in> set (tracklet_annotations ds)" using that by simp
    then have "\<not> isl (fst (materialize_tracklet env c (preload_offset ds) Map.empty
                             (tracklet_annotations ds ! i)))"
      using ok by blast
    from materialize_tracklet_fresh[OF this] that show ?thesis by (simp add: o_def)
  qed
  show ?thesis using ts per by simp
qed

text \<open>
  Claim C8. On a cache miss, for every tracklet the template point cloud is
  \<^verbatim>\<open>merge_template_pcds\<close> applied to the point clouds of the frames as
  \<^verbatim>\<open>_build_frame\<close> returned them (uncropped), with their bounding boxes and the
  configured offset and scale. The stored frames are those frames, each with its point
  cloud replaced by the cropped one when the crop offset is positive, and unchanged
  otherwise. The merge never receives a cropped cloud.
\<close>

theorem template_merged_before_crop:
  assumes "init_dataset env store stype c = Inr (ds, store')"
    and "cache ds"
    and "store (cache_file_dir c stype (preload_offset ds) (preload_interval ds)) = None"
  shows "\<exists>ts. tracklets ds = Some ts \<and> length ts = length (tracklet_annotations ds)
           \<and> (\<forall>i < length ts.
                 (\<forall>a \<in> set (tracklet_annotations ds ! i).
                     \<not> isl (fst (build_frame env (coordinate_mode c) Map.empty a)))
               \<and> comp_template_pcd (ts ! i) =
                   merge_template_pcds env
                     (map (\<lambda>a. pcd (projr (fst (build_frame env (coordinate_mode c) Map.empty a))))
                          (tracklet_annotations ds ! i))
                     (map (\<lambda>a. bbox (projr (fst (build_frame env (coordinate_mode c) Map.empty a))))
                          (tracklet_annotations ds ! i))
                     (model_offset c) (model_scale c)
               \<and> frames (ts ! i) =
                   (if preload_offset ds > 0
                    then map (\<lambda>a. crop_frame env (preload_offset ds)
                                    (projr (fst (build_frame env (coordinate_mode c) Map.empty a))))
                           (tracklet_annotations ds ! i)
                    else map (\<lambda>a. projr (fst (build_frame env (coordinate_mode c) Map.empty a)))
                           (tracklet_annotations ds ! i)))"
  using cache_miss_materialization[OF assms] .

theorem template_merged_before_crop_witness:
  "\<exists>ds s ts. init_dataset demo_env demo_store ''train'' (demo_cfg\<lparr>cache_train := True\<rparr>) = Inr (ds, s)
      \<and> cache ds \<and> 0 < preload_offset ds
      \<and> tracklets ds = Some ts
      \<and> comp_template_pcd (ts ! 0) = PointCloud [[1, 5], [2, 6], [3, 7], [4, 8], [0], [0], [0]]
      \<and> map pcd (frames (ts ! 0)) = [PointCloud [[1], [2], [3], [4]], PointCloud [[0], [0], [0]]]"
proof -
  let ?c = "demo_cfg\<lparr>cache_train := True\<rparr>"
  obtain ds s where i: "init_dataset demo_env demo_store ''train'' ?c = Inr (ds, s)"
    and h: "cache ds" "preload_offset ds = 1" "preload_interval ds = PyInt 2"
    and ta: "tracklet_annotations ds = [[demo_anno 0 0 0, demo_anno 0 2 0], [demo_anno 0 1 0], [demo_anno 0 0 1]]"
    using demo_init_cached by blast
  have miss: "demo_store (cache_file_dir ?c ''train'' (preload_offset ds) (preload_interval ds)) = None"
    by (simp add: demo_store_def)
  have mode: "coordinate_mode ?c = ''velodyne''" by (simp add: demo_cfg_def)
  have ext: "merge_template_pcds demo_env = (\<lambda>ps bs off sc. PointCloud (concat (map points ps)))"
    "crop_pcd_axis_aligned demo_env = (\<lambda>p b off. PointCloud (map (take 1) (points p)))"
    by (simp_all add: demo_env_def)
  from template_merged_before_crop[OF i h(1) miss] obtain ts where
    ts: "tracklets ds = Some ts" "length ts = length (tracklet_annotations ds)"
    and per: "\<forall>i < length ts.
                 (\<forall>a \<in> set (tracklet_annotations ds ! i).
                     \<not> isl (fst (build_frame demo_env (coordinate_mode ?c) Map.empty a)))
               \<and> comp_template_pcd (ts ! i) =
                   merge_template_pcds demo_env
                     (map (\<lambda>a. pcd (projr (fst (build_frame demo_env (coordinate_mode ?c) Map.empty a))))
                          (tracklet_annotations ds ! i))
                     (map (\<lambda>a. bbox (projr (fst (build_frame demo_env (coordinate_mode ?c) Map.empty a))))
                          (tracklet_annotations ds ! i))
                     (model_offset ?c) (model_scale ?c)
               \<and> frames (ts ! i) =
                   (if preload_offset ds > 0
                    then map (\<lambda>a. crop_frame demo_env (preload_offset ds)
                                    (projr (fst (build_frame demo_env (coordinate_mode ?c) Map.empty a))))
                           (tracklet_annotations ds ! i)
                    else map (\<lambda>a. projr (fst (build_frame demo_env (coordinate_mode ?c) Map.empty a)))
                           (tracklet_annotations ds ! i))"
    by blast
  have "0 < length ts" using ts(2) ta by simp
  with per have p0: "comp_template_pcd (ts ! 0) =
                   merge_template_pcds demo_env
                     (map (\<lambda>a. pcd (projr (fst (build_frame demo_env (coordinate_mode ?c) Map.empty a))))
                          (tracklet_annotations ds ! 0))
                     (map (\<lambda>a. bbox (projr (fst (build_frame demo_env (coordinate_mode ?c) Map.empty a))))
                          (tracklet_annotations ds ! 0))
                     (model_offset ?c) (model_scale ?c)"
    and f0: "frames (ts ! 0) =
                   (if preload_offset ds > 0
                    then map (\<lambda>a. crop_frame demo_env (preload_offset ds)
                                    (projr (fst (build_frame demo_env (coordinate_mode ?c) Map.empty a))))
                           (tracklet_annotations ds ! 0)
                    else map (\<lambda>a. projr (fst (build_frame demo_env (coordinate_mode ?c) Map.empty a)))
                           (tracklet_annotations ds ! 0))"
    by blast+
  have a: "comp_template_pcd (ts ! 0) = PointCloud [[1, 5], [2, 6], [3, 7], [4, 8], [0], [0], [0]]"
    by (simp add: p0 ta mode demo_build_frame_velodyne ext(1))
  have b: "map pcd (frames (ts ! 0)) = [PointCloud [[1], [2], [3], [4]], PointCloud [[0], [0], [0]]]"
    by (simp add: f0 h(2) ta mode demo_build_frame_velodyne crop_frame_def ext(2))
  show ?thesis using i h ts(1) a b by auto
qed

subsection \<open>Cropping is not reached without a positive offset\<close>

lemma build_frame_crop:
  "build_frame (env\<lparr>crop_pcd_axis_aligned := k\<rparr>) mode ci a = build_frame env mode ci a"
  by (simp add: build_frame_def frame_prelude_def get_calib_def read_calibration_file_def
        build_bbox_def load_pcd_def
        cong: option.case_cong sum.case_cong prod.case_cong if_cong)

lemma frames_loop_crop:
  "frames_loop (env\<lparr>crop_pcd_axis_aligned := k\<rparr>) mode ci annos built
   = frames_loop env mode ci annos built"
  by (induction annos arbitrary: ci built)
     (simp_all add: build_frame_crop cong: sum.case_cong prod.case_cong)

lemma materialize_tracklet_crop:
  "\<not> 0 < offset \<Longrightarrow>
   materialize_tracklet (env\<lparr>crop_pcd_axis_aligned := k\<rparr>) c offset ci ta
   = materialize_tracklet env c offset ci ta"
  by (simp add: materialize_tracklet_def frames_loop_crop Let_def
        cong: sum.case_cong prod.case_cong)

lemma tracklets_loop_crop:
  "\<not> 0 < offset \<Longrightarrow>
   tracklets_loop (env\<lparr>crop_pcd_axis_aligned := k\<rparr>) c offset ci tas acc
   = tracklets_loop env c offset ci tas acc"
  by (induction tas arbitrary: ci acc)
     (simp_all add: materialize_tracklet_crop cong: sum.case_cong prod.case_cong)

lemma init_index_crop:
  "init_index (env\<lparr>crop_pcd_axis_aligned := k\<rparr>) stype c = init_index env stype c"
  by (simp add: init_index_def Let_def cong: sum.case_cong if_cong)

lemma init_cache_crop:
  "\<not> 0 < preload_offset self \<Longrightarrow>
   init_cache (env\<lparr>crop_pcd_axis_aligned := k\<rparr>) store self = init_cache env store self"
  by (simp add: init_cache_def tracklets_loop_crop cong: option.case_cong if_cong)

lemma get_frame_crop:
  "\<not> 0 < preload_offset d \<Longrightarrow>
   get_frame (env\<lparr>crop_pcd_axis_aligned := k\<rparr>) d t f = get_frame env d t f"
  by (simp add: get_frame_def build_frame_crop
        cong: option.case_cong list.case_cong sum.case_cong prod.case_cong)

lemma get_frame_on_demand:
  assumes "tracklets d = None \<or> tracklets d = Some []"
    and "\<not> 0 < preload_offset d"
    and "py_getitem (tracklet_annotations d) t = Inr ta" and "py_getitem ta f = Inr a"
  shows "fst (get_frame env d t f)
         = fst (build_frame env (coordinate_mode (cfg d)) (calibration_info d) a)"
proof -
  obtain r ci where b: "build_frame env (coordinate_mode (cfg d)) (calibration_info d) a = (r, ci)"
    by (cases "build_frame env (coordinate_mode (cfg d)) (calibration_info d) a")
  show ?thesis using assms b by (cases r) (auto simp: get_frame_def)
qed


lemma demo_annos_val:
  "build_tracklet_annotations (sort_values demo_env) (label_files demo_env) ''Car'' (PyInt 2) ''val'' [18]
   = Inr [[demo_anno 18 0 5]]"
  by (simp add: build_tracklet_annotations_def demo_env_def filter_category_def demo_row_def
        demo_anno_def insert_scene_def label_row.extend_def subsample_track_def
        subsample_interval_def py_slice_step_def upt_conv_Cons Let_def)

lemma demo_init_val_cached:
  "\<exists>ds s. init_dataset demo_env demo_store ''val'' (demo_cfg\<lparr>cache_eval := True\<rparr>) = Inr (ds, s)
      \<and> cache ds \<and> preload_interval ds = PyInt 2
      \<and> tracklet_annotations ds = [[demo_anno 18 0 5]]"
proof -
  let ?c = "demo_cfg\<lparr>cache_eval := True\<rparr>"
  let ?self = "\<lparr>split_type = ''val'', cfg = ?c,
          preload_interval = PyInt 2, preload_offset = - 1, cache = True,
          calibration_info = Map.empty,
          tracklet_annotations = [[demo_anno 18 0 5]],
          tracklet_num_frames = [1],
          tracklet_st_frame_id = [0], tracklet_ed_frame_id = [1],
          tracklets = None\<rparr>"
  have c: "category_name ?c = ''Car''" "debug ?c" "cfg_preload_interval ?c = Some (PyInt 2)"
    "cache_eval ?c"
    by (simp_all add: demo_cfg_def)
  have idx: "init_index demo_env ''val'' ?c = Inr ?self"
    by (simp add: init_index_def c split_type_to_scene_ids_def demo_annos_val Let_def)
  have mode: "coordinate_mode ?c = ''velodyne''" by (simp add: demo_cfg_def)
  have ok: "\<forall>ta\<in>set (tracklet_annotations ?self). \<forall>a\<in>set ta.
              \<not> isl (fst (build_frame demo_env (coordinate_mode ?c) Map.empty a))"
    by (simp add: mode demo_build_frame_velodyne)
  obtain r ci where l: "tracklets_loop demo_env ?c (- 1) Map.empty (tracklet_annotations ?self) [] = (r, ci)"
    by (cases "tracklets_loop demo_env ?c (- 1) Map.empty (tracklet_annotations ?self) []")
  have "\<not> isl r"
    using tracklets_loop_success[OF memo_ok_empty ok, of "- 1" "[]"] l by simp
  then obtain ts where ts: "r = Inr ts" by (cases r) simp_all
  have "init_cache demo_env demo_store ?self =
          Inr (?self\<lparr>calibration_info := ci, tracklets := Some ts\<rparr>,
               demo_store(cache_file_dir ?c ''val'' (- 1) (PyInt 2) \<mapsto> ts))"
    using l ts by (simp add: init_cache_def demo_store_def)
  then show ?thesis by (simp add: init_dataset_def idx)
qed

text \<open>
  Claim C9. For a split other than \<^verbatim>\<open>'train'\<close> the constructed object has
  \<^verbatim>\<open>preload_offset = -1\<close>, whatever \<^verbatim>\<open>cfg.preload_offset\<close> is. Cropping is then
  applied nowhere: the construction and \<^verbatim>\<open>get_frame\<close> give the same result for every
  cropping routine \<open>k\<close>; the frames stored on a cache miss are the frames
  \<^verbatim>\<open>_build_frame\<close> returned; and the on-demand \<^verbatim>\<open>get_frame\<close> returns the frame
  \<^verbatim>\<open>_build_frame\<close> returns.
\<close>

theorem no_crop_outside_training:
  assumes "stype \<noteq> ''train''"
    and "init_dataset env store stype c = Inr (ds, store')"
  shows "preload_offset ds = - 1
       \<and> init_dataset (env\<lparr>crop_pcd_axis_aligned := k\<rparr>) store stype c = Inr (ds, store')
       \<and> (\<forall>d t f. preload_offset d = preload_offset ds \<longrightarrow>
             get_frame (env\<lparr>crop_pcd_axis_aligned := k\<rparr>) d t f = get_frame env d t f)
       \<and> (cache ds \<and> store (cache_file_dir c stype (preload_offset ds) (preload_interval ds)) = None
            \<longrightarrow> (\<exists>ts. tracklets ds = Some ts \<and> length ts = length (tracklet_annotations ds)
                  \<and> (\<forall>i < length ts.
                        frames (ts ! i) =
                          map (\<lambda>a. projr (fst (build_frame env (coordinate_mode c) Map.empty a)))
                              (tracklet_annotations ds ! i))))
       \<and> (\<forall>t f ta a. (tracklets ds = None \<or> tracklets ds = Some [])
              \<longrightarrow> py_getitem (tracklet_annotations ds) t = Inr ta \<longrightarrow> py_getitem ta f = Inr a
              \<longrightarrow> fst (get_frame env ds t f)
                   = fst (build_frame env (coordinate_mode c) (calibration_info ds) a))"
proof -
  from assms(2) obtain self where i: "init_index env stype c = Inr self"
    and j: "init_cache env store self = Inr (ds, store')"
    by (rule init_dataset_stages)
  note f = init_index_fields[OF i] and g = init_cache_fields[OF j]
  have off: "preload_offset ds = - 1" using f(5) g(5) assms(1) by simp
  have offs: "\<not> 0 < preload_offset self" using f(5) assms(1) by simp
  have a2: "init_dataset (env\<lparr>crop_pcd_axis_aligned := k\<rparr>) store stype c = Inr (ds, store')"
    using i j by (simp add: init_dataset_def init_index_crop init_cache_crop[OF offs])
  have a3: "\<forall>d t f. preload_offset d = preload_offset ds \<longrightarrow>
             get_frame (env\<lparr>crop_pcd_axis_aligned := k\<rparr>) d t f = get_frame env d t f"
    using off by (simp add: get_frame_crop)
  have a4: "\<exists>ts. tracklets ds = Some ts \<and> length ts = length (tracklet_annotations ds)
                  \<and> (\<forall>i < length ts.
                        frames (ts ! i) =
                          map (\<lambda>a. projr (fst (build_frame env (coordinate_mode c) Map.empty a)))
                              (tracklet_annotations ds ! i))"
    if "cache ds \<and> store (cache_file_dir c stype (preload_offset ds) (preload_interval ds)) = None"
    using cache_miss_materialization[OF assms(2)] that off by auto
  have a5: "\<forall>t f ta a. (tracklets ds = None \<or> tracklets ds = Some [])
              \<longrightarrow> py_getitem (tracklet_annotations ds) t = Inr ta \<longrightarrow> py_getitem ta f = Inr a
              \<longrightarrow> fst (get_frame env ds t f)
                   = fst (build_frame env (coordinate_mode c) (calibration_info ds) a)"
    using get_frame_on_demand[where d = ds and env = env] off g(6) f(4) by auto
  show ?thesis using off a2 a3 a4 a5 by blast
qed


theorem no_crop_outside_training_witness:
  "''val'' \<noteq> ''train''
   \<and> (\<exists>ds s ts. init_dataset demo_env demo_store ''val'' (demo_cfg\<lparr>cache_eval := True\<rparr>) = Inr (ds, s)
         \<and> cfg_preload_offset (demo_cfg\<lparr>cache_eval := True\<rparr>) = 1
         \<and> preload_offset ds = - 1
         \<and> tracklets ds = Some ts
         \<and> map pcd (frames (ts ! 0)) = [PointCloud [[1, 5], [2, 6], [3, 7], [4, 8]]])"
proof -
  let ?c = "demo_cfg\<lparr>cache_eval := True\<rparr>"
  have h: "''val'' \<noteq> ''train''" by simp
  obtain ds s where i: "init_dataset demo_env demo_store ''val'' ?c = Inr (ds, s)"
    and hc: "cache ds" and ta: "tracklet_annotations ds = [[demo_anno 18 0 5]]"
    using demo_init_val_cached by blast
  have mode: "coordinate_mode ?c = ''velodyne''" by (simp add: demo_cfg_def)
  have miss: "demo_store (cache_file_dir ?c ''val'' (preload_offset ds) (preload_interval ds)) = None"
    by (simp add: demo_store_def)
  from no_crop_outside_training[OF h i, where k = "\<lambda>p b off. p"] hc miss
  obtain ts where off: "preload_offset ds = - 1" and ts: "tracklets ds = Some ts"
    "length ts = length (tracklet_annotations ds)"
    and fr: "\<forall>i < length ts. frames (ts ! i) =
               map (\<lambda>a. projr (fst (build_frame demo_env (coordinate_mode ?c) Map.empty a)))
                   (tracklet_annotations ds ! i)"
    by blast
  have "0 < length ts" using ts(2) ta by simp
  with fr have "frames (ts ! 0) =
               map (\<lambda>a. projr (fst (build_frame demo_env (coordinate_mode ?c) Map.empty a)))
                   (tracklet_annotations ds ! 0)"
    by blast
  then have "map pcd (frames (ts ! 0)) = [PointCloud [[1, 5], [2, 6], [3, 7], [4, 8]]]"
    by (simp add: ta mode demo_build_frame_velodyne)
  moreover have "cfg_preload_offset ?c = 1" by (simp add: demo_cfg_def)
  ultimately show ?thesis using h i off ts(1) by auto
qed

subsection \<open>Cached and on-demand access\<close>

lemma get_frame_cached_equiv:
  assumes tc: "tracklets dc = Some (map (\<lambda>ta. projr (fst (materialize_tracklet env c
                   (preload_offset dc) Map.empty ta))) (tracklet_annotations dc))"
    and ok: "\<forall>ta\<in>set (tracklet_annotations dc).
               \<not> isl (fst (materialize_tracklet env c (preload_offset dc) Map.empty ta))"
    and mc: "memo_ok env (calibration_info dc)" and cc: "coordinate_mode (cfg dc) = coordinate_mode c"
    and tu: "tracklets du = None \<or> tracklets du = Some []"
    and au: "tracklet_annotations du = tracklet_annotations dc"
    and ou: "preload_offset du = preload_offset dc"
    and cu: "coordinate_mode (cfg du) = coordinate_mode c"
    and mu: "memo_ok env (calibration_info du)"
  shows "fst (get_frame env dc t f) = fst (get_frame env du t f)"
proof -
  let ?mode = "coordinate_mode c" and ?off = "preload_offset dc"
  let ?bf = "\<lambda>a. projr (fst (build_frame env ?mode Map.empty a))"
  let ?M = "\<lambda>ta. projr (fst (materialize_tracklet env c ?off Map.empty ta))"
  text \<open>The on-demand branch, for any object with a consistent memo.\<close>
  have demand: "fst (get_frame env d t f) =
      (case py_getitem (tracklet_annotations dc) t of
         Inl e \<Rightarrow> Inl e
       | Inr ta \<Rightarrow>
           (case py_getitem ta f of
              Inl e \<Rightarrow> Inl e
            | Inr a \<Rightarrow>
                (case fst (build_frame env ?mode Map.empty a) of
                   Inl e \<Rightarrow> Inl e
                 | Inr fr \<Rightarrow> Inr (if ?off > 0 then crop_frame env ?off fr else fr))))"
    if d: "tracklets d = None \<or> tracklets d = Some []"
      "tracklet_annotations d = tracklet_annotations dc" "preload_offset d = ?off"
      "coordinate_mode (cfg d) = ?mode" "memo_ok env (calibration_info d)"
    for d
  proof (cases "py_getitem (tracklet_annotations dc) t")
    case (Inl e)
    then show ?thesis using d(1,2) by (auto simp: get_frame_def)
  next
    case ta: (Inr ta)
    show ?thesis
    proof (cases "py_getitem ta f")
      case (Inl e)
      then show ?thesis using d(1,2) ta by (auto simp: get_frame_def)
    next
      case a: (Inr a)
      obtain r ci where b: "build_frame env ?mode (calibration_info d) a = (r, ci)"
        by (cases "build_frame env ?mode (calibration_info d) a")
      have r: "r = fst (build_frame env ?mode Map.empty a)"
        using build_frame_memo(1)[OF d(5), of ?mode a] b by simp
      show ?thesis
        using d(1,2,3,4) ta a b r[symmetric] by (cases r) (auto simp: get_frame_def)
    qed
  qed
  show ?thesis
  proof (cases "tracklet_annotations dc")
    case Nil
    then have "tracklets dc = Some []" using tc by simp
    then show ?thesis
      using demand[of dc] demand[of du] mc cc tu au ou cu mu by simp
  next
    case (Cons x xs)
    then obtain y ys where ne: "map ?M (tracklet_annotations dc) = y # ys" by simp
    have cached: "fst (get_frame env dc t f) =
        (case py_getitem (tracklet_annotations dc) t of
           Inl e \<Rightarrow> Inl e
         | Inr ta \<Rightarrow> py_getitem (frames (?M ta)) f)"
      using tc ne py_getitem_map[of ?M "tracklet_annotations dc" t]
      by (cases "py_getitem (tracklet_annotations dc) t") (simp_all add: get_frame_def)
    show ?thesis
    proof (cases "py_getitem (tracklet_annotations dc) t")
      case (Inl e)
      then show ?thesis using cached demand[of du] tu au ou cu mu by simp
    next
      case ta: (Inr ta)
      then have "ta \<in> set (tracklet_annotations dc)" by (rule py_getitem_in_set)
      then have nm: "\<not> isl (fst (materialize_tracklet env c ?off Map.empty ta))"
        using ok by blast
      have fr: "frames (?M ta) = (if ?off > 0 then map (crop_frame env ?off) (map ?bf ta)
                                  else map ?bf ta)"
        and oks: "\<forall>a\<in>set ta. \<not> isl (fst (build_frame env ?mode Map.empty a))"
        using materialize_tracklet_fresh[OF nm] by simp_all
      have sel: "py_getitem (frames (?M ta)) f =
                 map_sum id (\<lambda>a. if ?off > 0 then crop_frame env ?off (?bf a) else ?bf a)
                   (py_getitem ta f)"
        using py_getitem_map[of "\<lambda>a. crop_frame env ?off (?bf a)" ta f]
          py_getitem_map[of ?bf ta f]
        by (simp add: fr o_def)
      show ?thesis
      proof (cases "py_getitem ta f")
        case (Inl e)
        then show ?thesis using cached sel ta demand[of du] tu au ou cu mu by simp
      next
        case a: (Inr a)
        then have "a \<in> set ta" by (rule py_getitem_in_set)
        then have "\<not> isl (fst (build_frame env ?mode Map.empty a))" using oks by blast
        then obtain fr0 where fr0: "fst (build_frame env ?mode Map.empty a) = Inr fr0"
          by (cases "fst (build_frame env ?mode Map.empty a)") simp_all
        show ?thesis using cached sel ta a fr0 demand[of du] tu au ou cu mu by simp
      qed
    qed
  qed
qed

lemma get_frame_memo:
  assumes "memo_ok env (calibration_info d)"
  shows "memo_ok env (calibration_info (snd (get_frame env d t f)))"
proof -
  have b: "memo_ok env ci"
    if "build_frame env (coordinate_mode (cfg d)) (calibration_info d) a = (r, ci)" for a r ci
    using build_frame_memo(2)[OF assms, of "coordinate_mode (cfg d)" a] that by simp
  show ?thesis
    using assms b
    by (auto simp: get_frame_def split: option.splits list.splits sum.splits prod.splits)
qed

lemma init_index_uncached:
  "init_index env stype (c\<lparr>cache_train := False, cache_eval := False\<rparr>) =
     map_sum id (\<lambda>self. self\<lparr>cfg := c\<lparr>cache_train := False, cache_eval := False\<rparr>,
                                 cache := False\<rparr>)
       (init_index env stype c)"
proof -
  let ?c = "c\<lparr>cache_train := False, cache_eval := False\<rparr>"
  let ?iv = "case cfg_preload_interval c of None \<Rightarrow> PyInt 1 | Some v \<Rightarrow> v"
  show ?thesis
  proof (cases "category_name c \<notin> set [''Van'', ''Car'', ''Pedestrian'', ''Cyclist'', ''All'']")
    case True
    then show ?thesis by (simp add: init_index_def)
  next
    case cat: False
    show ?thesis
    proof (cases "split_type_to_scene_ids (debug c) stype")
      case (Inl e)
      then show ?thesis using cat by (simp add: init_index_def Let_def)
    next
      case ids: (Inr scene_ids)
      show ?thesis
      proof (cases "build_tracklet_annotations (sort_values env) (label_files env)
                      (category_name c) ?iv stype scene_ids")
        case (Inl e)
        then show ?thesis using cat ids by (simp add: init_index_def Let_def)
      next
        case an: (Inr annos)
        show ?thesis
        proof (cases "boundary_loop (map length annos) 0 [] []")
          case (Inl e)
          then show ?thesis using cat ids an by (simp add: init_index_def Let_def)
        next
          case (Inr p)
          then show ?thesis using cat ids an by (cases p) (simp add: init_index_def Let_def)
        qed
      qed
    qed
  qed
qed


lemma get_frame_state:
  assumes "tracklets d = None" and "memo_ok env (calibration_info d)"
  shows "\<exists>ci'. memo_ok env ci' \<and> snd (get_frame env d t f) = d\<lparr>calibration_info := ci'\<rparr>"
proof -
  have "\<exists>ci'. snd (get_frame env d t f) = d\<lparr>calibration_info := ci'\<rparr>"
  proof (cases "snd (get_frame env d t f) = d")
    case True
    then have "snd (get_frame env d t f) = d\<lparr>calibration_info := calibration_info d\<rparr>" by simp
    then show ?thesis by blast
  next
    case False
    then show ?thesis
      using assms(1)
      by (auto simp: get_frame_def split: sum.splits prod.splits)
  qed
  then obtain ci' where c: "snd (get_frame env d t f) = d\<lparr>calibration_info := ci'\<rparr>" by blast
  have "memo_ok env (calibration_info (snd (get_frame env d t f)))"
    using get_frame_memo[OF assms(2)] .
  then have "memo_ok env ci'" using c by simp
  then show ?thesis using c by blast
qed

text \<open>
  Claim C7. Let a dataset be constructed with caching enabled and no cache file present,
  so that it materializes and persists its tracklets. Then the same configuration with
  caching disabled constructs as well, and for every \<open>tracklet_id\<close> and \<open>frame_id\<close>
  (valid or not) \<^verbatim>\<open>get_frame\<close> returns the same frame, or raises the same exception,
  on both objects. This stays so after any number of on-demand calls, which only change
  the calibration memo, and it holds for the object constructed once more from the
  persisted artifact.
\<close>

theorem cached_uncached_equivalent:
  assumes "init_dataset env store stype c = Inr (ds_c, store_c)"
    and "cache ds_c"
    and "store (cache_file_dir c stype (preload_offset ds_c) (preload_interval ds_c)) = None"
  shows "\<exists>ds_u. init_dataset env store stype (c\<lparr>cache_train := False, cache_eval := False\<rparr>)
                  = Inr (ds_u, store)
           \<and> tracklets ds_u = None
           \<and> (\<forall>t f. fst (get_frame env ds_c t f) = fst (get_frame env ds_u t f))
           \<and> (\<forall>t f ci. memo_ok env ci \<longrightarrow>
                 fst (get_frame env (ds_u\<lparr>calibration_info := ci\<rparr>) t f)
                   = fst (get_frame env ds_c t f)
               \<and> (\<exists>ci'. memo_ok env ci'
                     \<and> snd (get_frame env (ds_u\<lparr>calibration_info := ci\<rparr>) t f)
                         = ds_u\<lparr>calibration_info := ci'\<rparr>))
           \<and> (\<exists>ds_r. init_dataset env store_c stype c = Inr (ds_r, store_c)
                 \<and> tracklets ds_r = tracklets ds_c
                 \<and> (\<forall>t f. fst (get_frame env ds_r t f) = fst (get_frame env ds_u t f)))"
proof -
  from assms(1) obtain self where i: "init_index env stype c = Inr self"
    and k: "init_cache env store self = Inr (ds_c, store_c)"
    by (rule init_dataset_stages)
  note f = init_index_fields[OF i] and g = init_cache_fields[OF k]
  let ?key = "cache_file_dir (cfg self) (split_type self) (preload_offset self)
                (preload_interval self)"
  let ?M = "\<lambda>ta. projr (fst (materialize_tracklet env c (preload_offset ds_c) Map.empty ta))"
  have hit: "cache self" using assms(2) g(8) by simp
  have miss: "store ?key = None" using assms(3) f(3,4) g(5,9) by simp
  have memo: "memo_ok env (calibration_info self)" using f(7) by (simp add: memo_ok_empty)
  have tc: "tracklets ds_c = Some (map ?M (tracklet_annotations ds_c))"
    and ok: "\<forall>ta\<in>set (tracklet_annotations ds_c).
               \<not> isl (fst (materialize_tracklet env c (preload_offset ds_c) Map.empty ta))"
    and mc: "memo_ok env (calibration_info ds_c)"
    and sc: "store_c = store(?key \<mapsto> the (tracklets ds_c))"
    using init_cache_miss[OF k hit miss memo] f(4) g(1,5) by simp_all
  have cc: "coordinate_mode (cfg ds_c) = coordinate_mode c" using f(4) g(6) by simp
  let ?c = "c\<lparr>cache_train := False, cache_eval := False\<rparr>"
  let ?u = "self\<lparr>cfg := ?c, cache := False\<rparr>"
  have iu: "init_index env stype ?c = Inr ?u" using init_index_uncached[of env stype c] i by simp
  have cu: "init_dataset env store stype ?c = Inr (?u, store)"
    by (simp add: init_dataset_def iu init_cache_def)
  have tu: "tracklets ?u = None" using f(8) by simp
  have au: "tracklet_annotations d = tracklet_annotations ds_c"
    and ou: "preload_offset d = preload_offset ds_c"
    and mu: "coordinate_mode (cfg d) = coordinate_mode c"
    and nu: "tracklets d = None \<or> tracklets d = Some []"
    if "d = ?u\<lparr>calibration_info := ci\<rparr>" for d ci
    using that g(1,5) f(8) by simp_all
  have eq: "fst (get_frame env ds_c t f) = fst (get_frame env (?u\<lparr>calibration_info := ci\<rparr>) t f)"
    if "memo_ok env ci" for t f ci
    using get_frame_cached_equiv[OF tc ok mc cc nu[OF refl] au[OF refl] ou[OF refl] mu[OF refl]]
      that by simp
  have a3: "\<forall>t f. fst (get_frame env ds_c t f) = fst (get_frame env ?u t f)"
  proof (intro allI)
    fix t f
    have "?u\<lparr>calibration_info := calibration_info self\<rparr> = ?u" by simp
    then show "fst (get_frame env ds_c t f) = fst (get_frame env ?u t f)"
      using eq[OF memo, of t f] by simp
  qed
  have a4: "\<forall>t f ci. memo_ok env ci \<longrightarrow>
                 fst (get_frame env (?u\<lparr>calibration_info := ci\<rparr>) t f)
                   = fst (get_frame env ds_c t f)
               \<and> (\<exists>ci'. memo_ok env ci'
                     \<and> snd (get_frame env (?u\<lparr>calibration_info := ci\<rparr>) t f)
                         = ?u\<lparr>calibration_info := ci'\<rparr>)"
  proof (intro allI impI)
    fix t f ci assume m: "memo_ok env ci"
    have "tracklets (?u\<lparr>calibration_info := ci\<rparr>) = None" using f(8) by simp
    moreover have "memo_ok env (calibration_info (?u\<lparr>calibration_info := ci\<rparr>))" using m by simp
    ultimately obtain ci' where "memo_ok env ci'"
      "snd (get_frame env (?u\<lparr>calibration_info := ci\<rparr>) t f)
         = ?u\<lparr>calibration_info := ci\<rparr>\<lparr>calibration_info := ci'\<rparr>"
      using get_frame_state[of "?u\<lparr>calibration_info := ci\<rparr>" env t f] by blast
    then have "\<exists>ci'. memo_ok env ci'
                     \<and> snd (get_frame env (?u\<lparr>calibration_info := ci\<rparr>) t f)
                         = ?u\<lparr>calibration_info := ci'\<rparr>"
      by auto
    then show "fst (get_frame env (?u\<lparr>calibration_info := ci\<rparr>) t f)
                   = fst (get_frame env ds_c t f)
               \<and> (\<exists>ci'. memo_ok env ci'
                     \<and> snd (get_frame env (?u\<lparr>calibration_info := ci\<rparr>) t f)
                         = ?u\<lparr>calibration_info := ci'\<rparr>)"
      using eq[OF m, of t f] by simp
  qed
  text \<open>Constructing again, now with the persisted artifact.\<close>
  let ?r = "self\<lparr>tracklets := tracklets ds_c\<rparr>"
  have cr: "init_dataset env store_c stype c = Inr (?r, store_c)"
    using hit tc by (simp add: init_dataset_def i init_cache_def sc)
  have tr: "tracklets ?r = Some (map (\<lambda>ta. projr (fst (materialize_tracklet env c
                   (preload_offset ?r) Map.empty ta))) (tracklet_annotations ?r))"
    using tc g(1,5) by simp
  have okr: "\<forall>ta\<in>set (tracklet_annotations ?r).
               \<not> isl (fst (materialize_tracklet env c (preload_offset ?r) Map.empty ta))"
    using ok g(1,5) by simp
  have mr: "memo_ok env (calibration_info ?r)" using memo by simp
  have cfr: "coordinate_mode (cfg ?r) = coordinate_mode c" using f(4) by simp
  have a5: "\<forall>t f. fst (get_frame env ?r t f) = fst (get_frame env ?u t f)"
  proof (intro allI)
    fix t f
    have "fst (get_frame env ?r t f) = fst (get_frame env ?u t f)"
      by (rule get_frame_cached_equiv[OF tr okr mr cfr]) (simp_all add: f(8) memo)
    then show "fst (get_frame env ?r t f) = fst (get_frame env ?u t f)" .
  qed
  have "tracklets ?r = tracklets ds_c" by simp
  then show ?thesis using cu tu a3 a4 cr a5 by blast
qed


theorem cached_uncached_equivalent_witness:
  "\<exists>ds_c s_c ds_u.
      init_dataset demo_env demo_store ''train'' (demo_cfg\<lparr>cache_train := True\<rparr>) = Inr (ds_c, s_c)
    \<and> cache ds_c \<and> 0 < preload_offset ds_c
    \<and> init_dataset demo_env demo_store ''train'' (demo_cfg\<lparr>cache_train := False, cache_eval := False\<rparr>)
        = Inr (ds_u, demo_store)
    \<and> tracklets ds_u = None
    \<and> fst (get_frame demo_env ds_u 0 0) = fst (get_frame demo_env ds_c 0 0)
    \<and> map_sum id pcd (fst (get_frame demo_env ds_c 0 0)) = Inr (PointCloud [[1], [2], [3], [4]])
    \<and> fst (get_frame demo_env ds_u 0 7) = Inl IndexError"
proof -
  let ?c = "demo_cfg\<lparr>cache_train := True\<rparr>"
  obtain ds s where i: "init_dataset demo_env demo_store ''train'' ?c = Inr (ds, s)"
    and h: "cache ds" "preload_offset ds = 1" "preload_interval ds = PyInt 2"
    and ta: "tracklet_annotations ds = [[demo_anno 0 0 0, demo_anno 0 2 0], [demo_anno 0 1 0], [demo_anno 0 0 1]]"
    using demo_init_cached by blast
  have miss: "demo_store (cache_file_dir ?c ''train'' (preload_offset ds) (preload_interval ds)) = None"
    by (simp add: demo_store_def)
  have mode: "coordinate_mode ?c = ''velodyne''" by (simp add: demo_cfg_def)
  have cu: "?c\<lparr>cache_train := False, cache_eval := False\<rparr>
            = demo_cfg\<lparr>cache_train := False, cache_eval := False\<rparr>"
    by simp
  from cached_uncached_equivalent[OF i h(1) miss] obtain du where
    u: "init_dataset demo_env demo_store ''train'' (?c\<lparr>cache_train := False, cache_eval := False\<rparr>)
          = Inr (du, demo_store)"
    and tu: "tracklets du = None"
    and eq: "\<forall>t f. fst (get_frame demo_env ds t f) = fst (get_frame demo_env du t f)"
    by blast
  from cache_miss_materialization[OF i h(1) miss] obtain ts where
    ts: "tracklets ds = Some ts" "length ts = length (tracklet_annotations ds)"
    and per: "\<forall>i < length ts. frames (ts ! i) =
                   (if preload_offset ds > 0
                    then map (\<lambda>a. crop_frame demo_env (preload_offset ds)
                                    (projr (fst (build_frame demo_env (coordinate_mode ?c) Map.empty a))))
                           (tracklet_annotations ds ! i)
                    else map (\<lambda>a. projr (fst (build_frame demo_env (coordinate_mode ?c) Map.empty a)))
                           (tracklet_annotations ds ! i))"
    by blast
  have len: "length ts = 3" using ts(2) ta by simp
  then obtain x xs where x: "ts = x # xs" by (cases ts) simp_all
  have "frames (ts ! 0) = map (\<lambda>a. crop_frame demo_env 1
                                    (projr (fst (build_frame demo_env ''velodyne'' Map.empty a))))
                           [demo_anno 0 0 0, demo_anno 0 2 0]"
    using per len h(2) ta mode by simp
  moreover have "crop_pcd_axis_aligned demo_env = (\<lambda>p b off. PointCloud (map (take 1) (points p)))"
    by (simp add: demo_env_def)
  ultimately have fx: "map pcd (frames x) = [PointCloud [[1], [2], [3], [4]], PointCloud [[0], [0], [0]]]"
    using x by (simp add: demo_build_frame_velodyne crop_frame_def)
  then obtain f0 f1 where fr: "frames x = [f0, f1]" "pcd f0 = PointCloud [[1], [2], [3], [4]]"
    by (cases "frames x"; cases "tl (frames x)") auto
  have gc: "fst (get_frame demo_env ds 0 0) = Inr f0"
    by (simp add: get_frame_def ts(1) x py_getitem_def fr(1))
  have g7: "fst (get_frame demo_env ds 0 7) = Inl IndexError"
    by (simp add: get_frame_def ts(1) x py_getitem_def fr(1))
  have "map_sum id pcd (fst (get_frame demo_env ds 0 0)) = Inr (PointCloud [[1], [2], [3], [4]])"
    using gc fr(2) by simp
  moreover have "fst (get_frame demo_env du 0 0) = fst (get_frame demo_env ds 0 0)"
    using eq by simp
  moreover have "fst (get_frame demo_env du 0 7) = Inl IndexError"
    using eq g7 by simp
  moreover have "0 < preload_offset ds" using h(2) by simp
  ultimately show ?thesis using i h(1) u[unfolded cu] tu by auto
qed

end
